theory Spec2Isabelle
  imports Main "HOL-Library.Sublist" "HOL-Library.Multiset"
begin

section \<open>Python values\<close>

text \<open>
  The repositories of \<^verbatim>\<open>backend/repositories\<close> move dynamically typed data between a
  generic collection store and the domain entities. A store item is a
  \<^verbatim>\<open>Dict[str, Any]\<close>; the envelope is whatever \<^verbatim>\<open>json.loads\<close> returns. Both are
  modelled by one type of Python values. A dictionary is an association list read
  with \<open>map_of\<close>, so the order \<^verbatim>\<open>json.dumps\<close> sees is kept. Floating-point numbers
  are not part of the model. \<open>PEnum s\<close> is the member with the value \<open>s\<close> of one of the
  enumerations \<^verbatim>\<open>BugStatus\<close>, \<^verbatim>\<open>BugPriority\<close>, \<^verbatim>\<open>BugSeverity\<close>; the specification
  treats them as opaque string-valued types, so every string is the value of a
  member.

  A \<^verbatim>\<open>datetime\<close> is its wall-clock reading in microseconds and, when it is
  timezone-aware, its UTC offset in microseconds (\<open>None\<close>: naive).
\<close>

datatype datetime = Datetime (wall: int) (utcoffset: "int option")

datatype pyval =
    PNone
  | PBool bool
  | PInt int
  | PStr string
  | PList "pyval list"
  | PDict "(string \<times> pyval) list"
  | PDatetime datetime
  | PEnum string

type_synonym pydict = "(string \<times> pyval) list"

text \<open>Truth value of a Python object, as \<^verbatim>\<open>if not description\<close> tests it.\<close>

fun truthy :: "pyval \<Rightarrow> bool" where
  "truthy PNone = False"
| "truthy (PBool b) = b"
| "truthy (PInt n) = (n \<noteq> 0)"
| "truthy (PStr s) = (s \<noteq> [])"
| "truthy (PList xs) = (xs \<noteq> [])"
| "truthy (PDict d) = (d \<noteq> [])"
| "truthy (PDatetime d) = True"
| "truthy (PEnum s) = True"

text \<open>\<^verbatim>\<open>d.get(k, default)\<close> on a dictionary.\<close>

definition dict_get :: "pydict \<Rightarrow> string \<Rightarrow> pyval \<Rightarrow> pyval" where
  "dict_get d k dflt = (case map_of d k of None \<Rightarrow> dflt | Some v \<Rightarrow> v)"

text \<open>
  What \<^verbatim>\<open>json.dumps\<close> accepts: every value of the model but a \<^verbatim>\<open>datetime\<close> and an
  enumeration member, on which it raises \<^verbatim>\<open>TypeError\<close>.
\<close>

fun serializable :: "pyval \<Rightarrow> bool" where
  "serializable (PDatetime d) = False"
| "serializable (PEnum s) = False"
| "serializable (PList xs) = list_all serializable xs"
| "serializable (PDict d) = list_all (\<lambda>kv. serializable (snd kv)) d"
| "serializable v = True"

section \<open>Errors, log records, library functions\<close>

text \<open>
  Every \<^verbatim>\<open>raise\<close> of the source is a value. The first three are the \<^verbatim>\<open>ValueError\<close>s the
  repositories raise themselves, named as the specification names them:
  \<^item> \<open>MalformedEnvelope i\<close>: \<^verbatim>\<open>ValueError("Invalid bug data for bug_id '<i>': description
    field contains malformed JSON - ...")\<close>, carrying the item's id \<open>i\<close>;
  \<^item> \<open>NotFound i\<close>: \<^verbatim>\<open>ValueError("Bug with ID <i> not found")\<close>;
  \<^item> \<open>InvalidArgument\<close>: \<^verbatim>\<open>ValueError("updates cannot be empty")\<close>.

  \<open>AttributeError\<close>, \<open>TypeError\<close> and \<open>KeyError\<close> are raised by the interpreter
  (\<^verbatim>\<open>.get\<close> or \<^verbatim>\<open>.isoformat\<close> on an object that has none, \<^verbatim>\<open>json.loads\<close> or
  \<^verbatim>\<open>json.dumps\<close> on an object of the wrong type, comparing a naive with an aware
  \<^verbatim>\<open>datetime\<close>, a missing key). \<open>StoreError\<close> is a failure of the store client.
\<close>

datatype error =
    MalformedEnvelope pyval
  | NotFound string
  | InvalidArgument
  | AttributeError
  | TypeError
  | KeyError
  | StoreError string

text \<open>
  A log record is its level and the fixed words of its message, without the kind and
  the id the source interpolates. The decoders return the records they log; the
  log lines of the repository operations are not modelled.
\<close>

datatype log = LogDebug string | LogWarning string | LogError string

text \<open>
  The standard-library functions the repositories call. They are parameters of the
  model: \<open>json_loads\<close> returns \<open>None\<close> where \<^verbatim>\<open>json.loads\<close> raises
  \<^verbatim>\<open>JSONDecodeError\<close>, \<open>fromisoformat\<close> returns \<open>None\<close> where
  \<^verbatim>\<open>datetime.fromisoformat\<close> raises \<^verbatim>\<open>ValueError\<close>.
\<close>

record pylib =
  json_loads :: "string \<Rightarrow> pyval option"
  json_dumps :: "pyval \<Rightarrow> string"
  fromisoformat :: "string \<Rightarrow> datetime option"
  isoformat :: "datetime \<Rightarrow> string"

text \<open>\<^verbatim>\<open>json.dumps(v)\<close> and \<^verbatim>\<open>v.isoformat()\<close> on a dynamically typed value.\<close>

definition py_dumps :: "pylib \<Rightarrow> pyval \<Rightarrow> error + string" where
  "py_dumps L v = (if serializable v then Inr (json_dumps L v) else Inl TypeError)"

fun py_isoformat :: "pylib \<Rightarrow> pyval \<Rightarrow> error + string" where
  "py_isoformat L (PDatetime d) = Inr (isoformat L d)"
| "py_isoformat L v = Inl AttributeError"

text \<open>
  \<^verbatim>\<open>v.value\<close>: the value of an enumeration member; any other object of the model has
  no such attribute.
\<close>

fun py_value :: "pyval \<Rightarrow> error + pyval" where
  "py_value (PEnum s) = Inr (PStr s)"
| "py_value v = Inl AttributeError"

text \<open>\<^verbatim>\<open>datetime.now(timezone.utc)\<close> when the clock reads \<open>t\<close>: an aware value, offset 0.\<close>

definition now_utc :: "int \<Rightarrow> datetime" where
  "now_utc t = Datetime t (Some 0)"

text \<open>\<^verbatim>\<open>d.replace(tzinfo=timezone.utc)\<close> when \<^verbatim>\<open>d.tzinfo is None\<close>.\<close>

definition ensure_aware :: "datetime \<Rightarrow> datetime" where
  "ensure_aware d = (case utcoffset d of None \<Rightarrow> Datetime (wall d) (Some 0) | Some off \<Rightarrow> d)"

text \<open>
  The point in time a \<^verbatim>\<open>datetime\<close> is compared by. Python orders two naive values by
  their wall-clock reading, two aware values by their UTC instant, and raises
  \<^verbatim>\<open>TypeError\<close> when asked to order a naive and an aware one. \<^verbatim>\<open>list.sort\<close> is stable,
  also with \<^verbatim>\<open>reverse=True\<close>, and compares across the two kinds as soon as the list
  holds both.
\<close>

definition instant :: "datetime \<Rightarrow> int" where
  "instant d = (case utcoffset d of None \<Rightarrow> wall d | Some off \<Rightarrow> wall d - off)"

definition comparable :: "datetime list \<Rightarrow> bool" where
  "comparable ds = (list_all (\<lambda>d. utcoffset d = None) ds \<or> list_all (\<lambda>d. utcoffset d \<noteq> None) ds)"

definition sort_by_datetime :: "('a \<Rightarrow> datetime) \<Rightarrow> bool \<Rightarrow> 'a list \<Rightarrow> error + 'a list" where
  "sort_by_datetime key reverse xs =
     (if comparable (map key xs)
      then Inr (if reverse then rev (sort_key (\<lambda>x. instant (key x)) (rev xs))
                else sort_key (\<lambda>x. instant (key x)) xs)
      else Inl TypeError)"

section \<open>Decoding steps shared by the three codecs\<close>

text \<open>
  \<^verbatim>\<open>if isinstance(item, dict) and "payload" in item: item = item["payload"]\<close>. The
  calls of \<^verbatim>\<open>item.get\<close> that follow raise \<^verbatim>\<open>AttributeError\<close> when the payload is not a
  dictionary.
\<close>

definition unwrap_payload :: "pydict \<Rightarrow> (error + pydict) \<times> log list" where
  "unwrap_payload item =
     (case map_of item ''payload'' of
        None \<Rightarrow> (Inr item, [])
      | Some (PDict p) \<Rightarrow> (Inr p, [LogDebug ''Extracting payload from item response''])
      | Some v \<Rightarrow> (Inl AttributeError, [LogDebug ''Extracting payload from item response'']))"

text \<open>
  \<^verbatim>\<open>json.loads(description_field) if isinstance(description_field, str) else {}\<close> inside
  \<^verbatim>\<open>try ... except json.JSONDecodeError\<close>, which logs and raises the \<^verbatim>\<open>ValueError\<close>
  naming the item's id.
\<close>

definition load_description :: "pylib \<Rightarrow> pyval \<Rightarrow> pyval \<Rightarrow> (error + pyval) \<times> log list" where
  "load_description L entity_id description_field =
     (case description_field of
        PStr s \<Rightarrow>
          (case json_loads L s of
             Some data \<Rightarrow> (Inr data, [])
           | None \<Rightarrow> (Inl (MalformedEnvelope entity_id),
                       [LogError ''Failed to parse description as JSON'']))
      | v \<Rightarrow> (Inr (PDict []), []))"

text \<open>The \<^verbatim>\<open>created_at\<close> chain of the Bug and ActivityLog codecs.\<close>

fun created_at_of :: "pylib \<Rightarrow> int \<Rightarrow> pyval \<Rightarrow> datetime \<times> log list" where
  "created_at_of L now PNone = (now_utc now, [])"
| "created_at_of L now (PDatetime d) = (d, [])"
| "created_at_of L now (PStr s) =
     (case fromisoformat L s of
        Some d \<Rightarrow> (d, [])
      | None \<Rightarrow> (now_utc now, [LogWarning ''Invalid datetime format, using current time'']))"
| "created_at_of L now v =
     (now_utc now, [LogWarning ''Unexpected type for created_at, using current time''])"

text \<open>The Comment codec also makes a parsed naive value aware.\<close>

fun comment_created_at_of :: "pylib \<Rightarrow> int \<Rightarrow> pyval \<Rightarrow> datetime \<times> log list" where
  "comment_created_at_of L now PNone = (now_utc now, [])"
| "comment_created_at_of L now (PDatetime d) = (d, [])"
| "comment_created_at_of L now (PStr s) =
     (case fromisoformat L s of
        Some d \<Rightarrow> (ensure_aware d, [])
      | None \<Rightarrow> (now_utc now, [LogWarning ''Invalid datetime format, using current time'']))"
| "comment_created_at_of L now v =
     (now_utc now, [LogWarning ''Unexpected type for created_at, using current time''])"

text \<open>The \<^verbatim>\<open>updatedAt\<close> chain of the Bug codec: every fallback is \<^verbatim>\<open>created_at\<close>.\<close>

fun updated_at_of :: "pylib \<Rightarrow> datetime \<Rightarrow> pyval \<Rightarrow> datetime \<times> log list" where
  "updated_at_of L created_at PNone = (created_at, [])"
| "updated_at_of L created_at (PDatetime d) = (d, [])"
| "updated_at_of L created_at (PStr s) =
     (case fromisoformat L s of
        Some d \<Rightarrow> (d, [])
      | None \<Rightarrow> (created_at, [LogWarning ''Invalid datetime format for updatedAt, using created_at'']))"
| "updated_at_of L created_at v =
     (created_at, [LogWarning ''Unexpected type for updatedAt, using created_at''])"

section \<open>Bug codec\<close>

text \<open>
  The entity classes of \<^verbatim>\<open>backend.models.bug_model\<close> are not among the source files.
  An entity is the record of the keyword arguments its constructor is called with;
  a field holds the Python value the code stored there. No validation by the
  constructor is modelled.
\<close>

record bug =
  b_id :: pyval
  b_title :: pyval
  b_description :: pyval
  b_projectId :: pyval
  b_reportedBy :: pyval
  b_assignedTo :: pyval
  b_status :: pyval
  b_priority :: pyval
  b_severity :: pyval
  b_tags :: pyval
  b_validated :: pyval
  b_createdAt :: pyval
  b_updatedAt :: pyval

definition collection :: string where
  "collection = ''ameya_tests''"

text \<open>
  The dictionary \<^verbatim>\<open>data\<close> of \<^verbatim>\<open>_bug_to_collection_item\<close>. Its entries are evaluated in
  order: \<^verbatim>\<open>bug.status.value\<close>, \<^verbatim>\<open>bug.priority.value\<close> and \<^verbatim>\<open>bug.severity.value\<close> raise
  \<^verbatim>\<open>AttributeError\<close> on a field that does not hold an enumeration member (a plain
  string that \<^verbatim>\<open>update_fields\<close> stored, say), and so does \<^verbatim>\<open>bug.updatedAt.isoformat()\<close>
  on a field that does not hold a \<^verbatim>\<open>datetime\<close>.
\<close>

definition bug_data :: "pylib \<Rightarrow> bug \<Rightarrow> error + pydict" where
  "bug_data L bug =
     (case py_value (b_status bug) of
        Inl e \<Rightarrow> Inl e
      | Inr status \<Rightarrow>
          (case py_value (b_priority bug) of
             Inl e \<Rightarrow> Inl e
           | Inr priority \<Rightarrow>
               (case py_value (b_severity bug) of
                  Inl e \<Rightarrow> Inl e
                | Inr severity \<Rightarrow>
                    (case py_isoformat L (b_updatedAt bug) of
                       Inl e \<Rightarrow> Inl e
                     | Inr updated \<Rightarrow>
                         Inr [(''type'', PStr ''bug''),
                              (''description'', b_description bug),
                              (''status'', status),
                              (''priority'', priority),
                              (''severity'', severity),
                              (''projectId'', b_projectId bug),
                              (''reportedBy'', b_reportedBy bug),
                              (''assignedTo'', b_assignedTo bug),
                              (''tags'', b_tags bug),
                              (''validated'', b_validated bug),
                              (''updatedAt'', PStr updated)]))))"

definition bug_to_collection_item :: "pylib \<Rightarrow> bug \<Rightarrow> error + pydict" where
  "bug_to_collection_item L bug =
     (case bug_data L bug of
        Inl e \<Rightarrow> Inl e
      | Inr data \<Rightarrow>
          (case py_dumps L (PDict data) of
             Inl e \<Rightarrow> Inl e
           | Inr text \<Rightarrow>
               (case py_isoformat L (b_createdAt bug) of
                  Inl e \<Rightarrow> Inl e
                | Inr created \<Rightarrow>
                    Inr [(''name'', b_title bug),
                         (''description'', PStr text),
                         (''created_at'', PStr created)])))"

text \<open>
  Modelled from the spec: the constructor of \<^verbatim>\<open>Bug\<close>, whose class is not among the
  source files, is given the strings read from the envelope for \<^verbatim>\<open>status\<close>,
  \<^verbatim>\<open>priority\<close> and \<^verbatim>\<open>severity\<close> and stores the enumeration members with these
  values, which the encoder then reads with \<^verbatim>\<open>.value\<close>. A value that is not a string
  is stored as it is.
\<close>

fun enum_member :: "pyval \<Rightarrow> pyval" where
  "enum_member (PStr s) = PEnum s"
| "enum_member v = v"

definition bug_of_fields :: "pyval \<Rightarrow> pydict \<Rightarrow> pydict \<Rightarrow> datetime \<Rightarrow> datetime \<Rightarrow> bug" where
  "bug_of_fields bug_id item data created_at updated_at =
     \<lparr> b_id = bug_id,
       b_title = dict_get item ''name'' (PStr []),
       b_description = dict_get data ''description'' (PStr []),
       b_projectId = dict_get data ''projectId'' (PStr []),
       b_reportedBy = dict_get data ''reportedBy'' (PStr []),
       b_assignedTo = dict_get data ''assignedTo'' PNone,
       b_status = enum_member (dict_get data ''status'' (PStr ''Open'')),
       b_priority = enum_member (dict_get data ''priority'' (PStr ''Medium'')),
       b_severity = enum_member (dict_get data ''severity'' (PStr ''Minor'')),
       b_tags = dict_get data ''tags'' (PList []),
       b_validated = dict_get data ''validated'' (PBool False),
       b_createdAt = PDatetime created_at,
       b_updatedAt = PDatetime updated_at \<rparr>"

text \<open>
  \<^verbatim>\<open>_collection_item_to_bug\<close>, with the clock reading \<open>now\<close> of the call and the records
  it logs. \<^verbatim>\<open>data.get\<close> raises \<^verbatim>\<open>AttributeError\<close> when the parsed description is not a
  dictionary.
\<close>

definition collection_item_to_bug :: "pylib \<Rightarrow> int \<Rightarrow> pydict \<Rightarrow> (error + bug) \<times> log list" where
  "collection_item_to_bug L now item0 =
     (case unwrap_payload item0 of
        (Inl e, l0) \<Rightarrow> (Inl e, l0)
      | (Inr item, l0) \<Rightarrow>
          (let bug_id = dict_get item ''__auto_id__'' PNone in
           case load_description L bug_id (dict_get item ''description'' (PStr ''{}'')) of
             (Inl e, l1) \<Rightarrow> (Inl e, l0 @ l1)
           | (Inr (PDict data), l1) \<Rightarrow>
               (let c = created_at_of L now (dict_get item ''created_at'' PNone);
                    u = updated_at_of L (fst c) (dict_get data ''updatedAt'' PNone)
                in (Inr (bug_of_fields bug_id item data (fst c) (fst u)),
                    l0 @ l1 @ snd c @ snd u))
           | (Inr v, l1) \<Rightarrow> (Inl AttributeError, l0 @ l1)))"

section \<open>Comment codec\<close>

record comment =
  c_id :: pyval
  c_bugId :: pyval
  c_authorId :: pyval
  c_message :: pyval
  c_createdAt :: datetime

definition comment_data :: "comment \<Rightarrow> pydict" where
  "comment_data c =
     [(''type'', PStr ''comment''),
      (''bugId'', c_bugId c),
      (''authorId'', c_authorId c),
      (''message'', c_message c)]"

text \<open>
  The item's name is the f-string \<^verbatim>\<open>f"Comment by {comment.authorId}"\<close>; formatting an
  object that is not a string is outside the model, where it is the bare prefix.
\<close>

definition comment_name :: "pyval \<Rightarrow> string" where
  "comment_name author = ''Comment by '' @ (case author of PStr s \<Rightarrow> s | v \<Rightarrow> [])"

definition comment_to_collection_item :: "pylib \<Rightarrow> comment \<Rightarrow> error + pydict" where
  "comment_to_collection_item L c =
     (case py_dumps L (PDict (comment_data c)) of
        Inl e \<Rightarrow> Inl e
      | Inr text \<Rightarrow>
          Inr [(''name'', PStr (comment_name (c_authorId c))),
               (''description'', PStr text),
               (''created_at'', PStr (isoformat L (c_createdAt c)))])"

definition collection_item_to_comment ::
  "pylib \<Rightarrow> int \<Rightarrow> pydict \<Rightarrow> (error + comment) \<times> log list" where
  "collection_item_to_comment L now item0 =
     (case unwrap_payload item0 of
        (Inl e, l0) \<Rightarrow> (Inl e, l0)
      | (Inr item, l0) \<Rightarrow>
          (let comment_id = dict_get item ''__auto_id__'' PNone in
           case load_description L comment_id (dict_get item ''description'' (PStr ''{}'')) of
             (Inl e, l1) \<Rightarrow> (Inl e, l0 @ l1)
           | (Inr (PDict data), l1) \<Rightarrow>
               (let c = comment_created_at_of L now (dict_get item ''created_at'' PNone)
                in (Inr \<lparr> c_id = comment_id,
                          c_bugId = dict_get data ''bugId'' (PStr []),
                          c_authorId = dict_get data ''authorId'' (PStr []),
                          c_message = dict_get data ''message'' (PStr []),
                          c_createdAt = fst c \<rparr>,
                    l0 @ l1 @ snd c))
           | (Inr v, l1) \<Rightarrow> (Inl AttributeError, l0 @ l1)))"

section \<open>ActivityLog codec\<close>

record activity_log =
  a_id :: pyval
  a_bugId :: pyval
  a_bugTitle :: pyval
  a_projectId :: pyval
  a_projectName :: pyval
  a_action :: pyval
  a_performedBy :: pyval
  a_performedByName :: pyval
  a_assignedToName :: pyval
  a_newStatus :: pyval
  a_timestamp :: datetime

definition activity_log_data :: "activity_log \<Rightarrow> pydict" where
  "activity_log_data a =
     [(''type'', PStr ''activity_log''),
      (''bugId'', a_bugId a),
      (''bugTitle'', a_bugTitle a),
      (''projectId'', a_projectId a),
      (''projectName'', a_projectName a),
      (''action'', a_action a),
      (''performedBy'', a_performedBy a),
      (''performedByName'', a_performedByName a),
      (''assignedToName'', a_assignedToName a),
      (''newStatus'', a_newStatus a)]"

text \<open>The name \<^verbatim>\<open>f"{activity_log.performedByName} {activity_log.action}"\<close>, for strings.\<close>

definition activity_log_name :: "pyval \<Rightarrow> pyval \<Rightarrow> string" where
  "activity_log_name who what =
     (case who of PStr s \<Rightarrow> s | v \<Rightarrow> []) @ '' '' @ (case what of PStr s \<Rightarrow> s | v \<Rightarrow> [])"

definition activity_log_to_collection_item :: "pylib \<Rightarrow> activity_log \<Rightarrow> error + pydict" where
  "activity_log_to_collection_item L a =
     (case py_dumps L (PDict (activity_log_data a)) of
        Inl e \<Rightarrow> Inl e
      | Inr text \<Rightarrow>
          Inr [(''name'', PStr (activity_log_name (a_performedByName a) (a_action a))),
               (''description'', PStr text),
               (''created_at'', PStr (isoformat L (a_timestamp a)))])"

definition collection_item_to_activity_log ::
  "pylib \<Rightarrow> int \<Rightarrow> pydict \<Rightarrow> (error + activity_log) \<times> log list" where
  "collection_item_to_activity_log L now item0 =
     (case unwrap_payload item0 of
        (Inl e, l0) \<Rightarrow> (Inl e, l0)
      | (Inr item, l0) \<Rightarrow>
          (let log_id = dict_get item ''__auto_id__'' PNone in
           case load_description L log_id (dict_get item ''description'' (PStr ''{}'')) of
             (Inl e, l1) \<Rightarrow> (Inl e, l0 @ l1)
           | (Inr (PDict data), l1) \<Rightarrow>
               (let t = created_at_of L now (dict_get item ''created_at'' PNone)
                in (Inr \<lparr> a_id = log_id,
                          a_bugId = dict_get data ''bugId'' (PStr []),
                          a_bugTitle = dict_get data ''bugTitle'' (PStr []),
                          a_projectId = dict_get data ''projectId'' (PStr []),
                          a_projectName = dict_get data ''projectName'' (PStr []),
                          a_action = dict_get data ''action'' (PStr []),
                          a_performedBy = dict_get data ''performedBy'' (PStr []),
                          a_performedByName = dict_get data ''performedByName'' (PStr []),
                          a_assignedToName = dict_get data ''assignedToName'' PNone,
                          a_newStatus = dict_get data ''newStatus'' PNone,
                          a_timestamp = fst t \<rparr>,
                    l0 @ l1 @ snd t))
           | (Inr v, l1) \<Rightarrow> (Inl AttributeError, l0 @ l1)))"

section \<open>List operations\<close>

text \<open>
  A list operation fetches the whole shared collection and filters it in memory. The
  functions below take \<open>items\<close>, the list \<^verbatim>\<open>get_all_items\<close> returned, and \<open>clock\<close>,
  the clock reading at the decode of the \<open>k\<close>-th item that passed the filter.

  \<open>filter_items\<close> is the \<^verbatim>\<open>for item in items\<close> loop: \<open>keep\<close> is one pass of its body,
  \<open>Inr True\<close> for \<^verbatim>\<open>filtered_items.append(item)\<close>, \<open>Inr False\<close> for \<^verbatim>\<open>continue\<close>, \<open>Inl\<close>
  for an exception the body does not catch, which ends the loop and the operation.
\<close>

fun filter_items :: "(pydict \<Rightarrow> error + bool) \<Rightarrow> pydict list \<Rightarrow> error + pydict list" where
  "filter_items keep [] = Inr []"
| "filter_items keep (item # items) =
     (case keep item of
        Inl e \<Rightarrow> Inl e
      | Inr k \<Rightarrow>
          (case filter_items keep items of
             Inl e \<Rightarrow> Inl e
           | Inr rest \<Rightarrow> Inr (if k then item # rest else rest)))"

text \<open>The list comprehension \<^verbatim>\<open>[decode(item) for item in filtered_items]\<close>.\<close>

fun decode_items ::
  "(int \<Rightarrow> pydict \<Rightarrow> error + 'a) \<Rightarrow> (nat \<Rightarrow> int) \<Rightarrow> nat \<Rightarrow> pydict list \<Rightarrow> error + 'a list" where
  "decode_items decode clock k [] = Inr []"
| "decode_items decode clock k (item # items) =
     (case decode (clock k) item of
        Inl e \<Rightarrow> Inl e
      | Inr x \<Rightarrow>
          (case decode_items decode clock (Suc k) items of
             Inl e \<Rightarrow> Inl e
           | Inr xs \<Rightarrow> Inr (x # xs)))"

text \<open>
  The loop body of \<^verbatim>\<open>BugRepository.get_all\<close>. Only \<^verbatim>\<open>json.JSONDecodeError\<close> is caught;
  \<^verbatim>\<open>data.get\<close> on a parsed value that is not a dictionary raises \<^verbatim>\<open>AttributeError\<close>.
  A filter argument is \<open>None\<close> or the string compared with the envelope's field.
\<close>

definition bug_keep ::
  "pylib \<Rightarrow> string option \<Rightarrow> string option \<Rightarrow> string option \<Rightarrow> pydict \<Rightarrow> error + bool" where
  "bug_keep L project_id status assigned_to item =
     (let description = dict_get item ''description'' (PStr []) in
      if \<not> truthy description then Inr False
      else
        (case (case description of PStr s \<Rightarrow> json_loads L s | v \<Rightarrow> Some (PDict [])) of
           None \<Rightarrow> Inr False
         | Some (PDict data) \<Rightarrow>
             Inr (dict_get data ''type'' PNone = PStr ''bug''
                  \<and> (case project_id of None \<Rightarrow> True
                      | Some p \<Rightarrow> dict_get data ''projectId'' PNone = PStr p)
                  \<and> (case status of None \<Rightarrow> True
                      | Some s \<Rightarrow> dict_get data ''status'' PNone = PStr s)
                  \<and> (case assigned_to of None \<Rightarrow> True
                      | Some a \<Rightarrow> dict_get data ''assignedTo'' PNone = PStr a))
         | Some v \<Rightarrow> Inl AttributeError))"

definition bug_get_all ::
  "pylib \<Rightarrow> (nat \<Rightarrow> int) \<Rightarrow> pydict list \<Rightarrow> string option \<Rightarrow> string option \<Rightarrow> string option
     \<Rightarrow> error + bug list" where
  "bug_get_all L clock items project_id status assigned_to =
     (case filter_items (bug_keep L project_id status assigned_to) items of
        Inl e \<Rightarrow> Inl e
      | Inr filtered_items \<Rightarrow>
          decode_items (\<lambda>now item. fst (collection_item_to_bug L now item)) clock 0 filtered_items)"

text \<open>
  The Comment and ActivityLog loops call \<^verbatim>\<open>json.loads(description)\<close> without the
  \<^verbatim>\<open>isinstance\<close> test: on a truthy value that is not a string it raises \<^verbatim>\<open>TypeError\<close>.
\<close>

definition loads_any :: "pylib \<Rightarrow> pyval \<Rightarrow> error + pyval option" where
  "loads_any L description =
     (case description of PStr s \<Rightarrow> Inr (json_loads L s) | v \<Rightarrow> Inl TypeError)"

definition comment_keep :: "pylib \<Rightarrow> string \<Rightarrow> pydict \<Rightarrow> error + bool" where
  "comment_keep L bug_id item =
     (let description = dict_get item ''description'' (PStr []) in
      if \<not> truthy description then Inr False
      else
        (case loads_any L description of
           Inl e \<Rightarrow> Inl e
         | Inr None \<Rightarrow> Inr False
         | Inr (Some (PDict data)) \<Rightarrow>
             Inr (dict_get data ''type'' PNone = PStr ''comment''
                  \<and> dict_get data ''bugId'' PNone = PStr bug_id)
         | Inr (Some v) \<Rightarrow> Inl AttributeError))"

definition comment_get_by_bug_id ::
  "pylib \<Rightarrow> (nat \<Rightarrow> int) \<Rightarrow> pydict list \<Rightarrow> string \<Rightarrow> error + comment list" where
  "comment_get_by_bug_id L clock items bug_id =
     (case filter_items (comment_keep L bug_id) items of
        Inl e \<Rightarrow> Inl e
      | Inr filtered_items \<Rightarrow>
          (case decode_items (\<lambda>now item. fst (collection_item_to_comment L now item))
                  clock 0 filtered_items of
             Inl e \<Rightarrow> Inl e
           | Inr comments \<Rightarrow> sort_by_datetime c_createdAt False comments))"

text \<open>
  \<^verbatim>\<open>ActivityLogRepository.get_by_bug_id\<close> and \<^verbatim>\<open>get_all\<close> are the same code but for
  the \<^verbatim>\<open>bugId\<close> test: \<open>bug_id\<close> is \<open>Some b\<close> for the first and \<open>None\<close> for the second.
\<close>

definition activity_log_keep :: "pylib \<Rightarrow> string option \<Rightarrow> pydict \<Rightarrow> error + bool" where
  "activity_log_keep L bug_id item =
     (let description = dict_get item ''description'' (PStr []) in
      if \<not> truthy description then Inr False
      else
        (case loads_any L description of
           Inl e \<Rightarrow> Inl e
         | Inr None \<Rightarrow> Inr False
         | Inr (Some (PDict data)) \<Rightarrow>
             Inr (dict_get data ''type'' PNone = PStr ''activity_log''
                  \<and> (case bug_id of None \<Rightarrow> True
                      | Some b \<Rightarrow> dict_get data ''bugId'' PNone = PStr b))
         | Inr (Some v) \<Rightarrow> Inl AttributeError))"

definition activity_log_list ::
  "pylib \<Rightarrow> (nat \<Rightarrow> int) \<Rightarrow> pydict list \<Rightarrow> string option \<Rightarrow> error + activity_log list" where
  "activity_log_list L clock items bug_id =
     (case filter_items (activity_log_keep L bug_id) items of
        Inl e \<Rightarrow> Inl e
      | Inr filtered_items \<Rightarrow>
          (case decode_items (\<lambda>now item. fst (collection_item_to_activity_log L now item))
                  clock 0 filtered_items of
             Inl e \<Rightarrow> Inl e
           | Inr logs \<Rightarrow> sort_by_datetime a_timestamp True logs))"

definition activity_log_get_by_bug_id ::
  "pylib \<Rightarrow> (nat \<Rightarrow> int) \<Rightarrow> pydict list \<Rightarrow> string \<Rightarrow> error + activity_log list" where
  "activity_log_get_by_bug_id L clock items bug_id = activity_log_list L clock items (Some bug_id)"

definition activity_log_get_all ::
  "pylib \<Rightarrow> (nat \<Rightarrow> int) \<Rightarrow> pydict list \<Rightarrow> error + activity_log list" where
  "activity_log_get_all L clock items = activity_log_list L clock items None"

section \<open>Operations on one bug\<close>

text \<open>
  The store client \<^verbatim>\<open>CollectionDBService\<close> is an external collaborator. An operation
  is run against the answers the client gives, and returns its result together with
  the calls it made, in order. \<open>clock\<close> gives the reading at each decode.
\<close>

datatype call =
    CreateItem string pydict
  | GetItemById string string
  | UpdateItem string string pydict
  | DeleteItem string string

record service =
  create_item :: "string \<Rightarrow> pydict \<Rightarrow> error + pydict"
  get_item_by_id :: "string \<Rightarrow> string \<Rightarrow> error + pydict option"
  update_item :: "string \<Rightarrow> string \<Rightarrow> pydict \<Rightarrow> error + pydict"
  delete_item :: "string \<Rightarrow> string \<Rightarrow> error + bool"

definition bug_create :: "pylib \<Rightarrow> service \<Rightarrow> int \<Rightarrow> bug \<Rightarrow> (error + bug) \<times> call list" where
  "bug_create L S now bug =
     (case bug_to_collection_item L bug of
        Inl e \<Rightarrow> (Inl e, [])
      | Inr item_data \<Rightarrow>
          (case create_item S collection item_data of
             Inl e \<Rightarrow> (Inl e, [CreateItem collection item_data])
           | Inr created_item \<Rightarrow>
               (fst (collection_item_to_bug L now created_item),
                [CreateItem collection item_data])))"

definition bug_get_by_id ::
  "pylib \<Rightarrow> service \<Rightarrow> int \<Rightarrow> string \<Rightarrow> (error + bug option) \<times> call list" where
  "bug_get_by_id L S now bug_id =
     (case get_item_by_id S collection bug_id of
        Inl e \<Rightarrow> (Inl e, [GetItemById collection bug_id])
      | Inr None \<Rightarrow> (Inr None, [GetItemById collection bug_id])
      | Inr (Some item) \<Rightarrow>
          (case fst (collection_item_to_bug L now item) of
             Inl e \<Rightarrow> (Inl e, [GetItemById collection bug_id])
           | Inr bug \<Rightarrow> (Inr (Some bug), [GetItemById collection bug_id])))"

text \<open>
  The tail the four update operations share: re-encode the bug, send
  \<^verbatim>\<open>{"description": item_data["description"]}\<close> to \<^verbatim>\<open>update_item\<close>, decode the answer.
\<close>

definition write_back ::
  "pylib \<Rightarrow> service \<Rightarrow> int \<Rightarrow> string \<Rightarrow> bug \<Rightarrow> (error + bug) \<times> call list" where
  "write_back L S now bug_id current_bug =
     (case bug_to_collection_item L current_bug of
        Inl e \<Rightarrow> (Inl e, [])
      | Inr item_data \<Rightarrow>
          (case map_of item_data ''description'' of
             None \<Rightarrow> (Inl KeyError, [])
           | Some text \<Rightarrow>
               (let updates = [(''description'', text)] in
                case update_item S collection bug_id updates of
                  Inl e \<Rightarrow> (Inl e, [UpdateItem collection bug_id updates])
                | Inr updated_item \<Rightarrow>
                    (fst (collection_item_to_bug L now updated_item),
                     [UpdateItem collection bug_id updates]))))"

text \<open>
  \<^verbatim>\<open>current_bug = await self.get_by_id(bug_id)\<close> followed by
  \<^verbatim>\<open>if not current_bug: raise ValueError(...)\<close>, then the change \<open>change\<close> and the tail.
\<close>

definition read_modify_write ::
  "pylib \<Rightarrow> service \<Rightarrow> (nat \<Rightarrow> int) \<Rightarrow> string \<Rightarrow> (bug \<Rightarrow> bug) \<Rightarrow> (error + bug) \<times> call list" where
  "read_modify_write L S clock bug_id change =
     (case bug_get_by_id L S (clock 0) bug_id of
        (Inl e, calls) \<Rightarrow> (Inl e, calls)
      | (Inr None, calls) \<Rightarrow> (Inl (NotFound bug_id), calls)
      | (Inr (Some current_bug), calls) \<Rightarrow>
          (let r = write_back L S (clock 1) bug_id (change current_bug)
           in (fst r, calls @ snd r)))"

definition bug_update_status ::
  "pylib \<Rightarrow> service \<Rightarrow> (nat \<Rightarrow> int) \<Rightarrow> string \<Rightarrow> string \<Rightarrow> datetime
     \<Rightarrow> (error + bug) \<times> call list" where
  "bug_update_status L S clock bug_id status updated_at =
     read_modify_write L S clock bug_id
       (\<lambda>current_bug. current_bug\<lparr> b_status := PEnum status, b_updatedAt := PDatetime updated_at \<rparr>)"

definition bug_update_assignment ::
  "pylib \<Rightarrow> service \<Rightarrow> (nat \<Rightarrow> int) \<Rightarrow> string \<Rightarrow> string \<Rightarrow> datetime
     \<Rightarrow> (error + bug) \<times> call list" where
  "bug_update_assignment L S clock bug_id assigned_to updated_at =
     read_modify_write L S clock bug_id
       (\<lambda>current_bug. current_bug\<lparr> b_assignedTo := PStr assigned_to,
                                     b_updatedAt := PDatetime updated_at \<rparr>)"

definition bug_update_validation ::
  "pylib \<Rightarrow> service \<Rightarrow> (nat \<Rightarrow> int) \<Rightarrow> string \<Rightarrow> bool \<Rightarrow> datetime
     \<Rightarrow> (error + bug) \<times> call list" where
  "bug_update_validation L S clock bug_id validated updated_at =
     read_modify_write L S clock bug_id
       (\<lambda>current_bug. current_bug\<lparr> b_validated := PBool validated,
                                     b_updatedAt := PDatetime updated_at \<rparr>)"

text \<open>
  Modelled from the spec: \<^verbatim>\<open>hasattr\<close> and \<^verbatim>\<open>setattr\<close> on a \<^verbatim>\<open>Bug\<close>, whose class is not
  among the source files. The attributes are the entity's fields; any other name is
  unknown, and \<^verbatim>\<open>update_fields\<close> ignores it.
\<close>

definition bug_setattr :: "bug \<Rightarrow> string \<Rightarrow> pyval \<Rightarrow> bug option" where
  "bug_setattr bug key v =
     (if key = ''id'' then Some (bug\<lparr> b_id := v \<rparr>)
      else if key = ''title'' then Some (bug\<lparr> b_title := v \<rparr>)
      else if key = ''description'' then Some (bug\<lparr> b_description := v \<rparr>)
      else if key = ''projectId'' then Some (bug\<lparr> b_projectId := v \<rparr>)
      else if key = ''reportedBy'' then Some (bug\<lparr> b_reportedBy := v \<rparr>)
      else if key = ''assignedTo'' then Some (bug\<lparr> b_assignedTo := v \<rparr>)
      else if key = ''status'' then Some (bug\<lparr> b_status := v \<rparr>)
      else if key = ''priority'' then Some (bug\<lparr> b_priority := v \<rparr>)
      else if key = ''severity'' then Some (bug\<lparr> b_severity := v \<rparr>)
      else if key = ''tags'' then Some (bug\<lparr> b_tags := v \<rparr>)
      else if key = ''validated'' then Some (bug\<lparr> b_validated := v \<rparr>)
      else if key = ''createdAt'' then Some (bug\<lparr> b_createdAt := v \<rparr>)
      else if key = ''updatedAt'' then Some (bug\<lparr> b_updatedAt := v \<rparr>)
      else None)"

text \<open>The loop \<^verbatim>\<open>for key, value in updates.items()\<close> of \<^verbatim>\<open>update_fields\<close>.\<close>

fun apply_updates :: "bug \<Rightarrow> pydict \<Rightarrow> bug" where
  "apply_updates bug [] = bug"
| "apply_updates bug ((key, v) # updates) =
     apply_updates (case bug_setattr bug key v of Some bug' \<Rightarrow> bug' | None \<Rightarrow> bug) updates"

definition bug_update_fields ::
  "pylib \<Rightarrow> service \<Rightarrow> (nat \<Rightarrow> int) \<Rightarrow> string \<Rightarrow> pydict \<Rightarrow> (error + bug) \<times> call list" where
  "bug_update_fields L S clock bug_id updates =
     (if updates = [] then (Inl InvalidArgument, [])
      else read_modify_write L S clock bug_id (\<lambda>current_bug. apply_updates current_bug updates))"

definition bug_delete :: "service \<Rightarrow> string \<Rightarrow> (error + bool) \<times> call list" where
  "bug_delete S bug_id = (delete_item S collection bug_id, [DeleteItem collection bug_id])"

section \<open>Comment and ActivityLog operations on one item\<close>

definition comment_create ::
  "pylib \<Rightarrow> service \<Rightarrow> int \<Rightarrow> comment \<Rightarrow> (error + comment) \<times> call list" where
  "comment_create L S now c =
     (case comment_to_collection_item L c of
        Inl e \<Rightarrow> (Inl e, [])
      | Inr item_data \<Rightarrow>
          (case create_item S collection item_data of
             Inl e \<Rightarrow> (Inl e, [CreateItem collection item_data])
           | Inr created_item \<Rightarrow>
               (fst (collection_item_to_comment L now created_item),
                [CreateItem collection item_data])))"

definition comment_get_by_id ::
  "pylib \<Rightarrow> service \<Rightarrow> int \<Rightarrow> string \<Rightarrow> (error + comment option) \<times> call list" where
  "comment_get_by_id L S now comment_id =
     (case get_item_by_id S collection comment_id of
        Inl e \<Rightarrow> (Inl e, [GetItemById collection comment_id])
      | Inr None \<Rightarrow> (Inr None, [GetItemById collection comment_id])
      | Inr (Some item) \<Rightarrow>
          (case fst (collection_item_to_comment L now item) of
             Inl e \<Rightarrow> (Inl e, [GetItemById collection comment_id])
           | Inr c \<Rightarrow> (Inr (Some c), [GetItemById collection comment_id])))"

definition activity_log_create ::
  "pylib \<Rightarrow> service \<Rightarrow> int \<Rightarrow> activity_log \<Rightarrow> (error + activity_log) \<times> call list" where
  "activity_log_create L S now a =
     (case activity_log_to_collection_item L a of
        Inl e \<Rightarrow> (Inl e, [])
      | Inr item_data \<Rightarrow>
          (case create_item S collection item_data of
             Inl e \<Rightarrow> (Inl e, [CreateItem collection item_data])
           | Inr created_item \<Rightarrow>
               (fst (collection_item_to_activity_log L now created_item),
                [CreateItem collection item_data])))"

section \<open>Properties named by the claims\<close>

text \<open>
  The library contract the round trip rests on: \<^verbatim>\<open>json.loads(json.dumps(v)) == v\<close> for
  a JSON value \<open>v\<close>, and \<^verbatim>\<open>datetime.fromisoformat(d.isoformat()) == d\<close>.
\<close>

definition json_roundtrip :: "pylib \<Rightarrow> pyval \<Rightarrow> bool" where
  "json_roundtrip L v = (serializable v \<and> json_loads L (json_dumps L v) = Some v)"

definition iso_roundtrip :: "pylib \<Rightarrow> datetime \<Rightarrow> bool" where
  "iso_roundtrip L d = (fromisoformat L (isoformat L d) = Some d)"

text \<open>
  The envelope's \<^verbatim>\<open>type\<close> of a store item, in the specification's words: the
  \<^verbatim>\<open>type\<close> field of the JSON object its \<^verbatim>\<open>description\<close> string holds.
\<close>

definition envelope_type :: "pylib \<Rightarrow> pydict \<Rightarrow> pyval option" where
  "envelope_type L item =
     (case map_of item ''description'' of
        Some (PStr s) \<Rightarrow>
          (case json_loads L s of
             Some (PDict data) \<Rightarrow> Some (dict_get data ''type'' PNone)
           | other \<Rightarrow> None)
      | other \<Rightarrow> None)"

text \<open>
  A timestamp value the decoders cannot use: a string \<^verbatim>\<open>fromisoformat\<close> rejects, or a
  value that is neither \<^verbatim>\<open>None\<close>, a \<^verbatim>\<open>datetime\<close> nor a string.
\<close>

fun unusable_timestamp :: "pylib \<Rightarrow> pyval \<Rightarrow> bool" where
  "unusable_timestamp L PNone = False"
| "unusable_timestamp L (PDatetime d) = False"
| "unusable_timestamp L (PStr s) = (fromisoformat L s = None)"
| "unusable_timestamp L v = True"

definition is_warning :: "log \<Rightarrow> bool" where
  "is_warning r = (case r of LogWarning m \<Rightarrow> True | other \<Rightarrow> False)"

definition is_update :: "call \<Rightarrow> bool" where
  "is_update c = (case c of UpdateItem coll i updates \<Rightarrow> True | other \<Rightarrow> False)"

text \<open>Newest first: each entry is at least as late as the one after it.\<close>

definition descending :: "int list \<Rightarrow> bool" where
  "descending ts = sorted (rev ts)"

section \<open>Sample data\<close>

text \<open>
  Concrete values for the examples. \<open>sample_json\<close> lists JSON values with the text
  \<^verbatim>\<open>json.dumps\<close> writes for them, \<open>sample_iso\<close> lists \<^verbatim>\<open>datetime\<close> values with their
  \<^verbatim>\<open>isoformat()\<close>; \<open>sample_lib\<close> is the library on these texts. The other texts of
  the examples, \<^verbatim>\<open>not json\<close> and \<^verbatim>\<open>not-a-date\<close>, are rejected, as \<^verbatim>\<open>json.loads\<close> and
  \<^verbatim>\<open>datetime.fromisoformat\<close> reject them. The wall clock counts from
  1970-01-01T00:00:00.
\<close>

definition t_2024_01_01 :: datetime where
  "t_2024_01_01 = Datetime 1704067200000000 None"

definition t_2024_01_02 :: datetime where
  "t_2024_01_02 = Datetime 1704153600000000 None"

definition t_2024_01_03 :: datetime where
  "t_2024_01_03 = Datetime 1704240000000000 None"

definition t_2024_01_04_utc :: datetime where
  "t_2024_01_04_utc = Datetime 1704326400000000 (Some 0)"

definition sample_iso :: "(datetime \<times> string) list" where
  "sample_iso =
     [(t_2024_01_01, ''2024-01-01T00:00:00''),
      (t_2024_01_02, ''2024-01-02T00:00:00''),
      (t_2024_01_03, ''2024-01-03T00:00:00''),
      (t_2024_01_04_utc, ''2024-01-04T00:00:00+00:00'')]"

definition sample_bug :: bug where
  "sample_bug =
     \<lparr> b_id = PNone,
       b_title = PStr ''Crash'',
       b_description = PStr ''It crashes'',
       b_projectId = PStr ''p1'',
       b_reportedBy = PStr ''u1'',
       b_assignedTo = PNone,
       b_status = PEnum ''Open'',
       b_priority = PEnum ''High'',
       b_severity = PEnum ''Major'',
       b_tags = PList [PStr ''ui''],
       b_validated = PBool False,
       b_createdAt = PDatetime t_2024_01_01,
       b_updatedAt = PDatetime t_2024_01_02 \<rparr>"

definition sample_comment :: comment where
  "sample_comment =
     \<lparr> c_id = PNone,
       c_bugId = PStr ''b1'',
       c_authorId = PStr ''u1'',
       c_message = PStr ''hi'',
       c_createdAt = t_2024_01_04_utc \<rparr>"

definition sample_log :: activity_log where
  "sample_log =
     \<lparr> a_id = PNone,
       a_bugId = PStr ''b1'',
       a_bugTitle = PStr ''Crash'',
       a_projectId = PStr ''p1'',
       a_projectName = PStr ''Demo'',
       a_action = PStr ''reported'',
       a_performedBy = PStr ''u1'',
       a_performedByName = PStr ''Ann'',
       a_assignedToName = PNone,
       a_newStatus = PNone,
       a_timestamp = t_2024_01_01 \<rparr>"

definition bug_text :: string where
  \<open>bug_text = ''{"type": "bug", "description": "It crashes", "status": "Open", "priority": "High", "severity": "Major", "projectId": "p1", "reportedBy": "u1", "assignedTo": null, "tags": ["ui"], "validated": false, "updatedAt": "2024-01-02T00:00:00"}''\<close>

definition closed_bug_text :: string where
  \<open>closed_bug_text = ''{"type": "bug", "description": "It crashes", "status": "Closed", "priority": "High", "severity": "Major", "projectId": "p1", "reportedBy": "u1", "assignedTo": null, "tags": ["ui"], "validated": false, "updatedAt": "2024-01-03T00:00:00"}''\<close>

definition assigned_bug_text :: string where
  \<open>assigned_bug_text = ''{"type": "bug", "description": "It crashes", "status": "Open", "priority": "High", "severity": "Major", "projectId": "p1", "reportedBy": "u1", "assignedTo": "u2", "tags": ["ui"], "validated": false, "updatedAt": "2024-01-03T00:00:00"}''\<close>

definition validated_bug_text :: string where
  \<open>validated_bug_text = ''{"type": "bug", "description": "It crashes", "status": "Open", "priority": "High", "severity": "Major", "projectId": "p1", "reportedBy": "u1", "assignedTo": null, "tags": ["ui"], "validated": true, "updatedAt": "2024-01-03T00:00:00"}''\<close>

definition relabelled_bug_text :: string where
  \<open>relabelled_bug_text = ''{"type": "bug", "description": "It crashes", "status": "Closed", "priority": "High", "severity": "Major", "projectId": "p1", "reportedBy": "u1", "assignedTo": null, "tags": ["ui"], "validated": false, "updatedAt": "2024-01-02T00:00:00"}''\<close>

definition stale_bug_text :: string where
  \<open>stale_bug_text = ''{"type": "bug", "updatedAt": "not-a-date"}''\<close>

definition comment_text :: string where
  \<open>comment_text = ''{"type": "comment", "bugId": "b1", "authorId": "u1", "message": "hi"}''\<close>

definition log_text :: string where
  \<open>log_text = ''{"type": "activity_log", "bugId": "b1", "bugTitle": "Crash", "projectId": "p1", "projectName": "Demo", "action": "reported", "performedBy": "u1", "performedByName": "Ann", "assignedToName": null, "newStatus": null}''\<close>

text \<open>
  The envelope of the sample bug with the given status, assignee, validation flag
  and \<^verbatim>\<open>updatedAt\<close> string.
\<close>

definition sample_envelope :: "string \<Rightarrow> pyval \<Rightarrow> bool \<Rightarrow> string \<Rightarrow> pydict" where
  "sample_envelope status assigned validated updated =
     [(''type'', PStr ''bug''),
      (''description'', PStr ''It crashes''),
      (''status'', PStr status),
      (''priority'', PStr ''High''),
      (''severity'', PStr ''Major''),
      (''projectId'', PStr ''p1''),
      (''reportedBy'', PStr ''u1''),
      (''assignedTo'', assigned),
      (''tags'', PList [PStr ''ui'']),
      (''validated'', PBool validated),
      (''updatedAt'', PStr updated)]"

definition sample_json :: "(pyval \<times> string) list" where
  "sample_json =
     [(PDict (sample_envelope ''Open'' PNone False ''2024-01-02T00:00:00''), bug_text),
      (PDict (sample_envelope ''Closed'' PNone False ''2024-01-03T00:00:00''), closed_bug_text),
      (PDict (sample_envelope ''Open'' (PStr ''u2'') False ''2024-01-03T00:00:00''),
       assigned_bug_text),
      (PDict (sample_envelope ''Open'' PNone True ''2024-01-03T00:00:00''), validated_bug_text),
      (PDict (sample_envelope ''Closed'' PNone False ''2024-01-02T00:00:00''),
       relabelled_bug_text),
      (PDict [(''type'', PStr ''bug''), (''updatedAt'', PStr ''not-a-date'')], stale_bug_text),
      (PDict (comment_data sample_comment), comment_text),
      (PDict (activity_log_data sample_log), log_text),
      (PDict [], ''{}''),
      (PInt 5, ''5'')]"

definition sample_lib :: pylib where
  "sample_lib =
     \<lparr> json_loads = map_of (map (\<lambda>(v, s). (s, v)) sample_json),
       json_dumps = (\<lambda>v. case map_of sample_json v of Some s \<Rightarrow> s | None \<Rightarrow> []),
       fromisoformat = map_of (map (\<lambda>(d, s). (s, d)) sample_iso),
       isoformat = (\<lambda>d. case map_of sample_iso d of Some s \<Rightarrow> s | None \<Rightarrow> []) \<rparr>"

text \<open>
  Items of the shared collection: two comments and two activity-log entries stored
  out of order, the sample bug, an item whose description is not JSON, and an item
  whose description is the JSON number 5.
\<close>

definition stored_bug :: pydict where
  "stored_bug =
     [(''__auto_id__'', PStr ''b1''),
      (''name'', PStr ''Crash''),
      (''description'', PStr bug_text),
      (''created_at'', PStr ''2024-01-01T00:00:00'')]"

definition stored_comment_late :: pydict where
  "stored_comment_late =
     [(''__auto_id__'', PStr ''c1''),
      (''name'', PStr ''Comment by u1''),
      (''description'', PStr comment_text),
      (''created_at'', PStr ''2024-01-04T00:00:00+00:00'')]"

definition stored_comment_early :: pydict where
  "stored_comment_early =
     [(''__auto_id__'', PStr ''c2''),
      (''name'', PStr ''Comment by u1''),
      (''description'', PStr comment_text),
      (''created_at'', PStr ''2024-01-01T00:00:00'')]"

definition stored_log_early :: pydict where
  "stored_log_early =
     [(''__auto_id__'', PStr ''l1''),
      (''name'', PStr ''Ann reported''),
      (''description'', PStr log_text),
      (''created_at'', PStr ''2024-01-01T00:00:00'')]"

definition stored_log_late :: pydict where
  "stored_log_late =
     [(''__auto_id__'', PStr ''l2''),
      (''name'', PStr ''Ann reported''),
      (''description'', PStr log_text),
      (''created_at'', PStr ''2024-01-03T00:00:00'')]"

definition broken_item :: pydict where
  "broken_item =
     [(''__auto_id__'', PStr ''x1''),
      (''name'', PStr ''junk''),
      (''description'', PStr ''not json''),
      (''created_at'', PStr ''2024-01-02T00:00:00'')]"

definition number_item :: pydict where
  "number_item =
     [(''__auto_id__'', PStr ''x2''),
      (''name'', PStr ''five''),
      (''description'', PStr ''5''),
      (''created_at'', PStr ''2024-01-02T00:00:00'')]"

definition sample_items :: "pydict list" where
  "sample_items =
     [stored_comment_late, stored_log_early, stored_bug, broken_item, stored_log_late,
      stored_comment_early]"

text \<open>
  A bug whose envelope carries an unreadable \<^verbatim>\<open>updatedAt\<close>, once with a good and once
  with an unreadable \<^verbatim>\<open>created_at\<close>; and an item whose description is a dictionary
  instead of a string.
\<close>

definition stale_item :: pydict where
  "stale_item =
     [(''__auto_id__'', PStr ''b2''),
      (''name'', PStr ''Old''),
      (''description'', PStr stale_bug_text),
      (''created_at'', PStr ''2024-01-01T00:00:00'')]"

definition undated_item :: pydict where
  "undated_item =
     [(''__auto_id__'', PStr ''b3''),
      (''name'', PStr ''Old''),
      (''description'', PStr stale_bug_text),
      (''created_at'', PStr ''not-a-date'')]"

definition object_item :: pydict where
  "object_item =
     [(''__auto_id__'', PStr ''b4''),
      (''name'', PStr ''Raw''),
      (''description'', PDict [(''type'', PStr ''bug''), (''status'', PStr ''Closed'')]),
      (''created_at'', PStr ''2024-01-02T00:00:00'')]"

text \<open>
  An activity-log entry and a comment whose \<^verbatim>\<open>created_at\<close> cannot be read: their
  decoded timestamp is the current time, which is timezone-aware.
\<close>

definition undated_log :: pydict where
  "undated_log =
     [(''__auto_id__'', PStr ''l3''),
      (''name'', PStr ''Ann reported''),
      (''description'', PStr log_text),
      (''created_at'', PStr ''not-a-date'')]"

definition undated_comment :: pydict where
  "undated_comment =
     [(''__auto_id__'', PStr ''c3''),
      (''name'', PStr ''Comment by u1''),
      (''description'', PStr comment_text),
      (''created_at'', PStr ''not-a-date'')]"

text \<open>What the encoders write for the sample bug and for the sample comment made naive.\<close>

definition encoded_bug :: pydict where
  "encoded_bug =
     [(''name'', PStr ''Crash''),
      (''description'', PStr bug_text),
      (''created_at'', PStr ''2024-01-01T00:00:00'')]"

definition encoded_comment :: pydict where
  "encoded_comment =
     [(''name'', PStr ''Comment by u1''),
      (''description'', PStr comment_text),
      (''created_at'', PStr ''2024-01-01T00:00:00'')]"

text \<open>
  A store client over the sample items and the number item: an item is found by its
  \<^verbatim>\<open>__auto_id__\<close>, and an update answers with the item overlaid by the fields sent.
\<close>

definition sample_store :: "pydict list" where
  "sample_store = sample_items @ [number_item]"

definition sample_lookup :: "string \<Rightarrow> pydict option" where
  "sample_lookup i = find (\<lambda>item. map_of item ''__auto_id__'' = Some (PStr i)) sample_store"

definition sample_service :: service where
  "sample_service =
     \<lparr> create_item = (\<lambda>coll fields. Inr ((''__auto_id__'', PStr ''n1'') # fields)),
       get_item_by_id = (\<lambda>coll i. Inr (sample_lookup i)),
       update_item = (\<lambda>coll i updates.
          case sample_lookup i of
            Some item \<Rightarrow> Inr (updates @ item)
          | None \<Rightarrow> Inl (StoreError ''no such item'')),
       delete_item = (\<lambda>coll i. Inr (sample_lookup i \<noteq> None)) \<rparr>"

section \<open>Predicates the statements use\<close>

fun is_str :: "pyval \<Rightarrow> bool" where
  "is_str (PStr s) = True"
| "is_str v = False"




text \<open>Two envelopes with the same keys that agree on every key outside \<open>keys\<close>.\<close>

definition same_but :: "string set \<Rightarrow> pydict \<Rightarrow> pydict \<Rightarrow> bool" where
  "same_but keys d d' = (map fst d' = map fst d \<and> (\<forall>k. k \<notin> keys \<longrightarrow> map_of d' k = map_of d k))"




section \<open>Facts about the decoding steps\<close>

lemma dict_get_Some: "map_of d k = Some v \<Longrightarrow> dict_get d k dflt = v"
  by (simp add: dict_get_def)

lemma dict_get_empty [simp]: "dict_get [] k dflt = dflt"
  by (simp add: dict_get_def)

lemma py_value_Inr: "py_value v = Inr x \<longleftrightarrow> (\<exists>s. v = PEnum s \<and> x = PStr s)"
  by (cases v) auto

lemma py_isoformat_Inr:
  "py_isoformat L v = Inr x \<longleftrightarrow> (\<exists>d. v = PDatetime d \<and> x = isoformat L d)"
  by (cases v) auto

text \<open>
  The envelope can be built exactly when the three enumeration fields hold members
  and \<^verbatim>\<open>updatedAt\<close> holds a \<^verbatim>\<open>datetime\<close>.
\<close>

lemma bug_data_Inr:
  "bug_data L b = Inr data \<longleftrightarrow>
     (\<exists>st pr sv u. b_status b = PEnum st \<and> b_priority b = PEnum pr \<and> b_severity b = PEnum sv
        \<and> b_updatedAt b = PDatetime u
        \<and> data = [(''type'', PStr ''bug''),
                    (''description'', b_description b),
                    (''status'', PStr st),
                    (''priority'', PStr pr),
                    (''severity'', PStr sv),
                    (''projectId'', b_projectId b),
                    (''reportedBy'', b_reportedBy b),
                    (''assignedTo'', b_assignedTo b),
                    (''tags'', b_tags b),
                    (''validated'', b_validated b),
                    (''updatedAt'', PStr (isoformat L u))])"
  unfolding bug_data_def
  by (auto simp: py_value_Inr py_isoformat_Inr split: sum.splits)

lemma load_description_not_str:
  "\<not> is_str v \<Longrightarrow> load_description L i v = (Inr (PDict []), [])"
  by (cases v) (simp_all add: load_description_def)

lemma created_at_unusable:
  "unusable_timestamp L v \<Longrightarrow>
   fst (created_at_of L now v) = now_utc now \<and> list_ex is_warning (snd (created_at_of L now v))"
  by (cases v) (simp_all add: is_warning_def)

lemma comment_created_at_unusable:
  "unusable_timestamp L v \<Longrightarrow>
   fst (comment_created_at_of L now v) = now_utc now
   \<and> list_ex is_warning (snd (comment_created_at_of L now v))"
  by (cases v) (simp_all add: is_warning_def)

lemma updated_at_unusable:
  "unusable_timestamp L v \<Longrightarrow>
   fst (updated_at_of L c v) = c \<and> list_ex is_warning (snd (updated_at_of L c v))"
  by (cases v) (simp_all add: is_warning_def)

lemma list_ex_subset: "list_ex P xs \<Longrightarrow> set xs \<subseteq> set ys \<Longrightarrow> list_ex P ys"
  by (auto simp: list_ex_iff)

text \<open>
  Once the payload is unwrapped and the description holds a JSON object, a decoder
  returns an entity: every field is read with a default, so no missing field makes
  it fail. The records logged by the timestamp chains are among those of the call.
\<close>

lemma decode_bug_parsed:
  assumes "fst (unwrap_payload item0) = Inr item"
    and "fst (load_description L (dict_get item ''__auto_id__'' PNone)
               (dict_get item ''description'' (PStr ''{}''))) = Inr (PDict data)"
  shows "fst (collection_item_to_bug L now item0) =
           Inr (bug_of_fields (dict_get item ''__auto_id__'' PNone) item data
                  (fst (created_at_of L now (dict_get item ''created_at'' PNone)))
                  (fst (updated_at_of L (fst (created_at_of L now (dict_get item ''created_at'' PNone)))
                          (dict_get data ''updatedAt'' PNone))))"
    and "set (snd (created_at_of L now (dict_get item ''created_at'' PNone)))
           \<subseteq> set (snd (collection_item_to_bug L now item0))"
    and "set (snd (updated_at_of L (fst (created_at_of L now (dict_get item ''created_at'' PNone)))
                          (dict_get data ''updatedAt'' PNone)))
           \<subseteq> set (snd (collection_item_to_bug L now item0))"
proof -
  obtain l0 where u: "unwrap_payload item0 = (Inr item, l0)"
    using assms(1) by (cases "unwrap_payload item0") simp
  obtain l1 where ld: "load_description L (dict_get item ''__auto_id__'' PNone)
               (dict_get item ''description'' (PStr ''{}'')) = (Inr (PDict data), l1)"
    using assms(2) by (cases "load_description L (dict_get item ''__auto_id__'' PNone)
               (dict_get item ''description'' (PStr ''{}''))") simp
  show "fst (collection_item_to_bug L now item0) =
           Inr (bug_of_fields (dict_get item ''__auto_id__'' PNone) item data
                  (fst (created_at_of L now (dict_get item ''created_at'' PNone)))
                  (fst (updated_at_of L (fst (created_at_of L now (dict_get item ''created_at'' PNone)))
                          (dict_get data ''updatedAt'' PNone))))"
    by (simp add: collection_item_to_bug_def u ld Let_def)
  show "set (snd (created_at_of L now (dict_get item ''created_at'' PNone)))
           \<subseteq> set (snd (collection_item_to_bug L now item0))"
    by (auto simp: collection_item_to_bug_def u ld Let_def)
  show "set (snd (updated_at_of L (fst (created_at_of L now (dict_get item ''created_at'' PNone)))
                          (dict_get data ''updatedAt'' PNone)))
           \<subseteq> set (snd (collection_item_to_bug L now item0))"
    by (auto simp: collection_item_to_bug_def u ld Let_def)
qed

lemma decode_comment_parsed:
  assumes "fst (unwrap_payload item0) = Inr item"
    and "fst (load_description L (dict_get item ''__auto_id__'' PNone)
               (dict_get item ''description'' (PStr ''{}''))) = Inr (PDict data)"
  shows "fst (collection_item_to_comment L now item0) =
           Inr \<lparr> c_id = dict_get item ''__auto_id__'' PNone,
                 c_bugId = dict_get data ''bugId'' (PStr []),
                 c_authorId = dict_get data ''authorId'' (PStr []),
                 c_message = dict_get data ''message'' (PStr []),
                 c_createdAt = fst (comment_created_at_of L now (dict_get item ''created_at'' PNone)) \<rparr>"
    and "set (snd (comment_created_at_of L now (dict_get item ''created_at'' PNone)))
           \<subseteq> set (snd (collection_item_to_comment L now item0))"
proof -
  obtain l0 where u: "unwrap_payload item0 = (Inr item, l0)"
    using assms(1) by (cases "unwrap_payload item0") simp
  obtain l1 where ld: "load_description L (dict_get item ''__auto_id__'' PNone)
               (dict_get item ''description'' (PStr ''{}'')) = (Inr (PDict data), l1)"
    using assms(2) by (cases "load_description L (dict_get item ''__auto_id__'' PNone)
               (dict_get item ''description'' (PStr ''{}''))") simp
  show "fst (collection_item_to_comment L now item0) =
           Inr \<lparr> c_id = dict_get item ''__auto_id__'' PNone,
                 c_bugId = dict_get data ''bugId'' (PStr []),
                 c_authorId = dict_get data ''authorId'' (PStr []),
                 c_message = dict_get data ''message'' (PStr []),
                 c_createdAt = fst (comment_created_at_of L now (dict_get item ''created_at'' PNone)) \<rparr>"
    by (simp add: collection_item_to_comment_def u ld Let_def)
  show "set (snd (comment_created_at_of L now (dict_get item ''created_at'' PNone)))
           \<subseteq> set (snd (collection_item_to_comment L now item0))"
    by (auto simp: collection_item_to_comment_def u ld Let_def)
qed

lemma decode_activity_log_parsed:
  assumes "fst (unwrap_payload item0) = Inr item"
    and "fst (load_description L (dict_get item ''__auto_id__'' PNone)
               (dict_get item ''description'' (PStr ''{}''))) = Inr (PDict data)"
  shows "fst (collection_item_to_activity_log L now item0) =
           Inr \<lparr> a_id = dict_get item ''__auto_id__'' PNone,
                 a_bugId = dict_get data ''bugId'' (PStr []),
                 a_bugTitle = dict_get data ''bugTitle'' (PStr []),
                 a_projectId = dict_get data ''projectId'' (PStr []),
                 a_projectName = dict_get data ''projectName'' (PStr []),
                 a_action = dict_get data ''action'' (PStr []),
                 a_performedBy = dict_get data ''performedBy'' (PStr []),
                 a_performedByName = dict_get data ''performedByName'' (PStr []),
                 a_assignedToName = dict_get data ''assignedToName'' PNone,
                 a_newStatus = dict_get data ''newStatus'' PNone,
                 a_timestamp = fst (created_at_of L now (dict_get item ''created_at'' PNone)) \<rparr>"
    and "set (snd (created_at_of L now (dict_get item ''created_at'' PNone)))
           \<subseteq> set (snd (collection_item_to_activity_log L now item0))"
proof -
  obtain l0 where u: "unwrap_payload item0 = (Inr item, l0)"
    using assms(1) by (cases "unwrap_payload item0") simp
  obtain l1 where ld: "load_description L (dict_get item ''__auto_id__'' PNone)
               (dict_get item ''description'' (PStr ''{}'')) = (Inr (PDict data), l1)"
    using assms(2) by (cases "load_description L (dict_get item ''__auto_id__'' PNone)
               (dict_get item ''description'' (PStr ''{}''))") simp
  show "fst (collection_item_to_activity_log L now item0) =
           Inr \<lparr> a_id = dict_get item ''__auto_id__'' PNone,
                 a_bugId = dict_get data ''bugId'' (PStr []),
                 a_bugTitle = dict_get data ''bugTitle'' (PStr []),
                 a_projectId = dict_get data ''projectId'' (PStr []),
                 a_projectName = dict_get data ''projectName'' (PStr []),
                 a_action = dict_get data ''action'' (PStr []),
                 a_performedBy = dict_get data ''performedBy'' (PStr []),
                 a_performedByName = dict_get data ''performedByName'' (PStr []),
                 a_assignedToName = dict_get data ''assignedToName'' PNone,
                 a_newStatus = dict_get data ''newStatus'' PNone,
                 a_timestamp = fst (created_at_of L now (dict_get item ''created_at'' PNone)) \<rparr>"
    by (simp add: collection_item_to_activity_log_def u ld Let_def)
  show "set (snd (created_at_of L now (dict_get item ''created_at'' PNone)))
           \<subseteq> set (snd (collection_item_to_activity_log L now item0))"
    by (auto simp: collection_item_to_activity_log_def u ld Let_def)
qed

text \<open>A decoded bug always carries two \<^verbatim>\<open>datetime\<close> values.\<close>

lemma decode_bug_datetimes:
  assumes "fst (collection_item_to_bug L now item0) = Inr b"
  shows "\<exists>c u. b_createdAt b = PDatetime c \<and> b_updatedAt b = PDatetime u"
proof -
  obtain r l0 where u: "unwrap_payload item0 = (r, l0)" by (cases "unwrap_payload item0")
  show ?thesis
  proof (cases r)
    case (Inl e)
    with assms u show ?thesis by (simp add: collection_item_to_bug_def)
  next
    case (Inr item)
    obtain r1 l1 where ld: "load_description L (dict_get item ''__auto_id__'' PNone)
               (dict_get item ''description'' (PStr ''{}'')) = (r1, l1)"
      by (cases "load_description L (dict_get item ''__auto_id__'' PNone)
               (dict_get item ''description'' (PStr ''{}''))")
    from assms u Inr ld show ?thesis
      by (auto simp: collection_item_to_bug_def Let_def bug_of_fields_def
          split: sum.splits pyval.splits)
  qed
qed

text \<open>
  A description string that \<^verbatim>\<open>json.loads\<close> rejects makes each decoder fail with
  \<open>MalformedEnvelope\<close>, carrying the id read from \<^verbatim>\<open>__auto_id__\<close>.
\<close>

lemma decode_malformed:
  assumes "fst (unwrap_payload item0) = Inr item"
    and "map_of item ''description'' = Some (PStr s)"
    and "json_loads L s = None"
  shows "fst (collection_item_to_bug L now item0) =
           Inl (MalformedEnvelope (dict_get item ''__auto_id__'' PNone))"
    and "fst (collection_item_to_comment L now item0) =
           Inl (MalformedEnvelope (dict_get item ''__auto_id__'' PNone))"
    and "fst (collection_item_to_activity_log L now item0) =
           Inl (MalformedEnvelope (dict_get item ''__auto_id__'' PNone))"
proof -
  obtain l0 where u: "unwrap_payload item0 = (Inr item, l0)"
    using assms(1) by (cases "unwrap_payload item0") simp
  have d: "dict_get item ''description'' (PStr ''{}'') = PStr s"
    using assms(2) by (rule dict_get_Some)
  show "fst (collection_item_to_bug L now item0) =
           Inl (MalformedEnvelope (dict_get item ''__auto_id__'' PNone))"
    by (simp add: collection_item_to_bug_def u d load_description_def assms(3))
  show "fst (collection_item_to_comment L now item0) =
           Inl (MalformedEnvelope (dict_get item ''__auto_id__'' PNone))"
    by (simp add: collection_item_to_comment_def u d load_description_def assms(3))
  show "fst (collection_item_to_activity_log L now item0) =
           Inl (MalformedEnvelope (dict_get item ''__auto_id__'' PNone))"
    by (simp add: collection_item_to_activity_log_def u d load_description_def assms(3))
qed

text \<open>
  A description string that holds JSON other than an object makes each decoder fail
  with \<open>AttributeError\<close>: \<^verbatim>\<open>data.get\<close> is called on a value that has no such method.
\<close>

lemma decode_non_object:
  assumes "fst (unwrap_payload item0) = Inr item"
    and "map_of item ''description'' = Some (PStr s)"
    and "json_loads L s = Some v"
    and "\<forall>data. v \<noteq> PDict data"
  shows "fst (collection_item_to_bug L now item0) = Inl AttributeError"
    and "fst (collection_item_to_comment L now item0) = Inl AttributeError"
    and "fst (collection_item_to_activity_log L now item0) = Inl AttributeError"
proof -
  obtain l0 where u: "unwrap_payload item0 = (Inr item, l0)"
    using assms(1) by (cases "unwrap_payload item0") simp
  have d: "dict_get item ''description'' (PStr ''{}'') = PStr s"
    using assms(2) by (rule dict_get_Some)
  show "fst (collection_item_to_bug L now item0) = Inl AttributeError"
    using assms(4)
    by (cases v) (simp_all add: collection_item_to_bug_def u d load_description_def assms(3))
  show "fst (collection_item_to_comment L now item0) = Inl AttributeError"
    using assms(4)
    by (cases v) (simp_all add: collection_item_to_comment_def u d load_description_def assms(3))
  show "fst (collection_item_to_activity_log L now item0) = Inl AttributeError"
    using assms(4)
    by (cases v)
      (simp_all add: collection_item_to_activity_log_def u d load_description_def assms(3))
qed

section \<open>The sample library and the sample items, evaluated\<close>

lemmas sample_texts =
  bug_text_def closed_bug_text_def assigned_bug_text_def validated_bug_text_def
  relabelled_bug_text_def stale_bug_text_def comment_text_def log_text_def

lemmas sample_times =
  t_2024_01_01_def t_2024_01_02_def t_2024_01_03_def t_2024_01_04_utc_def

lemmas sample_stored =
  stored_bug_def stored_comment_late_def stored_comment_early_def stored_log_early_def
  stored_log_late_def broken_item_def number_item_def

lemma sample_texts_nonempty:
  "bug_text \<noteq> []" "comment_text \<noteq> []" "log_text \<noteq> []" "stale_bug_text \<noteq> []"
  by (simp_all add: sample_texts)

lemma sample_loads:
  "json_loads sample_lib bug_text
     = Some (PDict (sample_envelope ''Open'' PNone False ''2024-01-02T00:00:00''))"
  "json_loads sample_lib closed_bug_text
     = Some (PDict (sample_envelope ''Closed'' PNone False ''2024-01-03T00:00:00''))"
  "json_loads sample_lib assigned_bug_text
     = Some (PDict (sample_envelope ''Open'' (PStr ''u2'') False ''2024-01-03T00:00:00''))"
  "json_loads sample_lib validated_bug_text
     = Some (PDict (sample_envelope ''Open'' PNone True ''2024-01-03T00:00:00''))"
  "json_loads sample_lib relabelled_bug_text
     = Some (PDict (sample_envelope ''Closed'' PNone False ''2024-01-02T00:00:00''))"
  "json_loads sample_lib comment_text = Some (PDict (comment_data sample_comment))"
  "json_loads sample_lib log_text = Some (PDict (activity_log_data sample_log))"
  "json_loads sample_lib stale_bug_text =
     Some (PDict [(''type'', PStr ''bug''), (''updatedAt'', PStr ''not-a-date'')])"
  "json_loads sample_lib ''5'' = Some (PInt 5)"
  "json_loads sample_lib ''{}'' = Some (PDict [])"
  "json_loads sample_lib ''not json'' = None"
  by (simp_all add: sample_lib_def sample_json_def sample_texts)

lemma sample_dumps:
  "json_dumps sample_lib (PDict (sample_envelope ''Open'' PNone False ''2024-01-02T00:00:00''))
     = bug_text"
  "json_dumps sample_lib (PDict (sample_envelope ''Closed'' PNone False ''2024-01-03T00:00:00''))
     = closed_bug_text"
  "json_dumps sample_lib
     (PDict (sample_envelope ''Open'' (PStr ''u2'') False ''2024-01-03T00:00:00''))
     = assigned_bug_text"
  "json_dumps sample_lib (PDict (sample_envelope ''Open'' PNone True ''2024-01-03T00:00:00''))
     = validated_bug_text"
  "json_dumps sample_lib (PDict (sample_envelope ''Closed'' PNone False ''2024-01-02T00:00:00''))
     = relabelled_bug_text"
  "json_dumps sample_lib (PDict (comment_data sample_comment)) = comment_text"
  "json_dumps sample_lib (PDict (activity_log_data sample_log)) = log_text"
  by (simp_all add: sample_lib_def sample_json_def sample_envelope_def comment_data_def
      activity_log_data_def sample_comment_def sample_log_def)

lemma sample_fromiso:
  "fromisoformat sample_lib ''2024-01-01T00:00:00'' = Some t_2024_01_01"
  "fromisoformat sample_lib ''2024-01-02T00:00:00'' = Some t_2024_01_02"
  "fromisoformat sample_lib ''2024-01-03T00:00:00'' = Some t_2024_01_03"
  "fromisoformat sample_lib ''2024-01-04T00:00:00+00:00'' = Some t_2024_01_04_utc"
  "fromisoformat sample_lib ''not-a-date'' = None"
  by (simp_all add: sample_lib_def sample_iso_def)

lemma sample_isoformat:
  "isoformat sample_lib t_2024_01_01 = ''2024-01-01T00:00:00''"
  "isoformat sample_lib t_2024_01_02 = ''2024-01-02T00:00:00''"
  "isoformat sample_lib t_2024_01_03 = ''2024-01-03T00:00:00''"
  "isoformat sample_lib t_2024_01_04_utc = ''2024-01-04T00:00:00+00:00''"
  by (simp_all add: sample_lib_def sample_iso_def sample_times)

lemma sample_serializable:
  "serializable (PDict (sample_envelope st (PStr who) ok u))"
  "serializable (PDict (sample_envelope st PNone ok u))"
  "serializable (PDict (comment_data sample_comment))"
  "serializable (PDict (activity_log_data sample_log))"
  by (simp_all add: sample_envelope_def comment_data_def sample_comment_def
      activity_log_data_def sample_log_def)

text \<open>The envelope the encoder builds for the sample bug.\<close>

lemma sample_bug_data:
  "bug_data sample_lib sample_bug
     = Inr (sample_envelope ''Open'' PNone False ''2024-01-02T00:00:00'')"
  by (simp add: bug_data_def sample_bug_def sample_envelope_def sample_isoformat)

lemma sample_lookup_eval:
  "sample_lookup ''b1'' = Some stored_bug"
  "sample_lookup ''x1'' = Some broken_item"
  "sample_lookup ''x2'' = Some number_item"
  "sample_lookup ''b9'' = None"
  by (simp_all add: sample_lookup_def sample_store_def sample_items_def sample_stored)

lemma decode_stored_bug:
  "fst (collection_item_to_bug sample_lib now stored_bug) = Inr (sample_bug\<lparr> b_id := PStr ''b1'' \<rparr>)"
  by (simp add: collection_item_to_bug_def unwrap_payload_def load_description_def stored_bug_def
      dict_get_def sample_loads sample_fromiso bug_of_fields_def sample_envelope_def
      sample_bug_def)

lemma decode_stored_comment_late:
  "fst (collection_item_to_comment sample_lib now stored_comment_late) =
     Inr (sample_comment\<lparr> c_id := PStr ''c1'' \<rparr>)"
  by (simp add: collection_item_to_comment_def unwrap_payload_def load_description_def
      stored_comment_late_def dict_get_def sample_loads sample_fromiso comment_data_def
      sample_comment_def ensure_aware_def t_2024_01_04_utc_def)

lemma decode_stored_comment_early:
  "fst (collection_item_to_comment sample_lib now stored_comment_early) =
     Inr (sample_comment\<lparr> c_id := PStr ''c2'',
                           c_createdAt := Datetime 1704067200000000 (Some 0) \<rparr>)"
  by (simp add: collection_item_to_comment_def unwrap_payload_def load_description_def
      stored_comment_early_def dict_get_def sample_loads sample_fromiso comment_data_def
      sample_comment_def ensure_aware_def t_2024_01_01_def)

lemma decode_stored_log_early:
  "fst (collection_item_to_activity_log sample_lib now stored_log_early) =
     Inr (sample_log\<lparr> a_id := PStr ''l1'' \<rparr>)"
  by (simp add: collection_item_to_activity_log_def unwrap_payload_def load_description_def
      stored_log_early_def dict_get_def sample_loads sample_fromiso activity_log_data_def
      sample_log_def)

lemma decode_stored_log_late:
  "fst (collection_item_to_activity_log sample_lib now stored_log_late) =
     Inr (sample_log\<lparr> a_id := PStr ''l2'', a_timestamp := t_2024_01_03 \<rparr>)"
  by (simp add: collection_item_to_activity_log_def unwrap_payload_def load_description_def
      stored_log_late_def dict_get_def sample_loads sample_fromiso activity_log_data_def
      sample_log_def)

lemma keep_sample_bug:
  "map (bug_keep sample_lib None None None) sample_items =
     [Inr False, Inr False, Inr True, Inr False, Inr False, Inr False]"
  by (simp add: sample_items_def bug_keep_def dict_get_def sample_loads sample_texts_nonempty
      sample_stored comment_data_def activity_log_data_def sample_envelope_def)

lemma keep_sample_comment:
  "map (comment_keep sample_lib ''b1'') sample_items =
     [Inr True, Inr False, Inr False, Inr False, Inr False, Inr True]"
  by (simp add: sample_items_def comment_keep_def loads_any_def dict_get_def sample_loads
      sample_texts_nonempty sample_stored comment_data_def activity_log_data_def sample_envelope_def
      sample_comment_def)

lemma keep_sample_log:
  "map (activity_log_keep sample_lib None) sample_items =
     [Inr False, Inr True, Inr False, Inr False, Inr True, Inr False]"
  "map (activity_log_keep sample_lib (Some ''b1'')) sample_items =
     [Inr False, Inr True, Inr False, Inr False, Inr True, Inr False]"
  by (simp_all add: sample_items_def activity_log_keep_def loads_any_def dict_get_def sample_loads
      sample_texts_nonempty sample_stored comment_data_def activity_log_data_def sample_envelope_def
      sample_log_def)

text \<open>
  The three list operations on the sample items: the bug alone; the two comments,
  oldest first; the two activity-log entries, newest first. The item that is not
  JSON is skipped by all of them.
\<close>

lemma sample_bug_get_all:
  "bug_get_all sample_lib (\<lambda>k. 0) sample_items None None None =
     Inr [sample_bug\<lparr> b_id := PStr ''b1'' \<rparr>]"
  using keep_sample_bug
  by (simp add: bug_get_all_def sample_items_def decode_stored_bug)

lemma sample_comment_get_by_bug_id:
  "comment_get_by_bug_id sample_lib (\<lambda>k. 0) sample_items ''b1'' =
     Inr [sample_comment\<lparr> c_id := PStr ''c2'',
                           c_createdAt := Datetime 1704067200000000 (Some 0) \<rparr>,
          sample_comment\<lparr> c_id := PStr ''c1'' \<rparr>]"
  using keep_sample_comment
  by (simp add: comment_get_by_bug_id_def sample_items_def decode_stored_comment_late
      decode_stored_comment_early sort_by_datetime_def comparable_def instant_def
      sample_comment_def t_2024_01_04_utc_def)

lemma sample_activity_log_get_all:
  "activity_log_get_all sample_lib (\<lambda>k. 0) sample_items =
     Inr [sample_log\<lparr> a_id := PStr ''l2'', a_timestamp := t_2024_01_03 \<rparr>,
          sample_log\<lparr> a_id := PStr ''l1'' \<rparr>]"
  using keep_sample_log
  by (simp add: activity_log_get_all_def activity_log_list_def
      sample_items_def decode_stored_log_early
      decode_stored_log_late sort_by_datetime_def comparable_def instant_def
      sample_log_def t_2024_01_01_def t_2024_01_03_def)

lemma sample_activity_log_get_by_bug_id:
  "activity_log_get_by_bug_id sample_lib (\<lambda>k. 0) sample_items ''b1'' =
     Inr [sample_log\<lparr> a_id := PStr ''l2'', a_timestamp := t_2024_01_03 \<rparr>,
          sample_log\<lparr> a_id := PStr ''l1'' \<rparr>]"
  using keep_sample_log
  by (simp add: activity_log_get_by_bug_id_def activity_log_list_def
      sample_items_def decode_stored_log_early
      decode_stored_log_late sort_by_datetime_def comparable_def instant_def
      sample_log_def t_2024_01_01_def t_2024_01_03_def)

section \<open>Encode, then decode\<close>

lemma bug_roundtrip:
  assumes d: "bug_data L b = Inr data"
    and j: "json_roundtrip L (PDict data)"
    and c: "b_createdAt b = PDatetime c" and u: "b_updatedAt b = PDatetime u"
    and ic: "iso_roundtrip L c" and iu: "iso_roundtrip L u"
  shows "\<exists>item. bug_to_collection_item L b = Inr item
           \<and> fst (collection_item_to_bug L now item) = Inr (b\<lparr> b_id := PNone \<rparr>)"
proof -
  let ?item = "[(''name'', b_title b), (''description'', PStr (json_dumps L (PDict data))),
                (''created_at'', PStr (isoformat L c))]"
  from d u obtain st pr sv where
    enums: "b_status b = PEnum st" "b_priority b = PEnum pr" "b_severity b = PEnum sv"
    and data: "data = [(''type'', PStr ''bug''),
                    (''description'', b_description b),
                    (''status'', PStr st),
                    (''priority'', PStr pr),
                    (''severity'', PStr sv),
                    (''projectId'', b_projectId b),
                    (''reportedBy'', b_reportedBy b),
                    (''assignedTo'', b_assignedTo b),
                    (''tags'', b_tags b),
                    (''validated'', b_validated b),
                    (''updatedAt'', PStr (isoformat L u))]"
    by (auto simp: bug_data_Inr)
  have enc: "bug_to_collection_item L b = Inr ?item"
    using j by (simp add: bug_to_collection_item_def d c py_dumps_def json_roundtrip_def)
  have un: "fst (unwrap_payload ?item) = Inr ?item"
    by (simp add: unwrap_payload_def)
  have ld: "fst (load_description L (dict_get ?item ''__auto_id__'' PNone)
               (dict_get ?item ''description'' (PStr ''{}''))) = Inr (PDict data)"
    using j by (simp add: load_description_def dict_get_def json_roundtrip_def)
  have "fst (collection_item_to_bug L now ?item) = Inr (b\<lparr> b_id := PNone \<rparr>)"
    unfolding decode_bug_parsed(1) [OF un ld]
    using c u enums
    by (cases b)
      (simp add: bug_of_fields_def dict_get_def data ic [unfolded iso_roundtrip_def]
        iu [unfolded iso_roundtrip_def])
  with enc show ?thesis by blast
qed

lemma comment_roundtrip:
  assumes j: "json_roundtrip L (PDict (comment_data c))"
    and ic: "iso_roundtrip L (c_createdAt c)"
  shows "\<exists>item. comment_to_collection_item L c = Inr item
           \<and> fst (collection_item_to_comment L now item) =
               Inr (c\<lparr> c_id := PNone, c_createdAt := ensure_aware (c_createdAt c) \<rparr>)"
proof -
  let ?data = "comment_data c"
  let ?item = "[(''name'', PStr (comment_name (c_authorId c))),
                (''description'', PStr (json_dumps L (PDict ?data))),
                (''created_at'', PStr (isoformat L (c_createdAt c)))]"
  have enc: "comment_to_collection_item L c = Inr ?item"
    using j by (simp add: comment_to_collection_item_def py_dumps_def json_roundtrip_def)
  have un: "fst (unwrap_payload ?item) = Inr ?item"
    by (simp add: unwrap_payload_def)
  have ld: "fst (load_description L (dict_get ?item ''__auto_id__'' PNone)
               (dict_get ?item ''description'' (PStr ''{}''))) = Inr (PDict ?data)"
    using j by (simp add: load_description_def dict_get_def json_roundtrip_def)
  have "fst (collection_item_to_comment L now ?item) =
          Inr (c\<lparr> c_id := PNone, c_createdAt := ensure_aware (c_createdAt c) \<rparr>)"
    unfolding decode_comment_parsed(1) [OF un ld]
    using ic [unfolded iso_roundtrip_def]
    by (cases c) (simp add: dict_get_def comment_data_def)
  with enc show ?thesis by blast
qed

lemma activity_log_roundtrip:
  assumes j: "json_roundtrip L (PDict (activity_log_data a))"
    and ic: "iso_roundtrip L (a_timestamp a)"
  shows "\<exists>item. activity_log_to_collection_item L a = Inr item
           \<and> fst (collection_item_to_activity_log L now item) = Inr (a\<lparr> a_id := PNone \<rparr>)"
proof -
  let ?data = "activity_log_data a"
  let ?item = "[(''name'', PStr (activity_log_name (a_performedByName a) (a_action a))),
                (''description'', PStr (json_dumps L (PDict ?data))),
                (''created_at'', PStr (isoformat L (a_timestamp a)))]"
  have enc: "activity_log_to_collection_item L a = Inr ?item"
    using j by (simp add: activity_log_to_collection_item_def py_dumps_def json_roundtrip_def)
  have un: "fst (unwrap_payload ?item) = Inr ?item"
    by (simp add: unwrap_payload_def)
  have ld: "fst (load_description L (dict_get ?item ''__auto_id__'' PNone)
               (dict_get ?item ''description'' (PStr ''{}''))) = Inr (PDict ?data)"
    using j by (simp add: load_description_def dict_get_def json_roundtrip_def)
  have "fst (collection_item_to_activity_log L now ?item) = Inr (a\<lparr> a_id := PNone \<rparr>)"
    unfolding decode_activity_log_parsed(1) [OF un ld]
    using ic [unfolded iso_roundtrip_def]
    by (cases a) (simp add: dict_get_def activity_log_data_def)
  with enc show ?thesis by blast
qed

text \<open>
  Claim C1, as amended. For each of the three kinds, and for every entity whose
  envelope is a JSON value the library reads back as written and whose timestamps
  \<^verbatim>\<open>fromisoformat\<close> reads back from \<^verbatim>\<open>isoformat\<close>, encoding succeeds and decoding the
  encoded item returns the entity with every field as it was, except that
  \<^item> the id is \<^verbatim>\<open>None\<close>: the encoders do not write it, and the decoders read it from
    the \<^verbatim>\<open>__auto_id__\<close> the store adds;
  \<^item> a comment's \<^verbatim>\<open>createdAt\<close> is made timezone-aware (UTC) when it was naive.
  Which optional fields are \<^verbatim>\<open>None\<close> plays no role. For a bug the envelope \<open>data\<close> is
  the dictionary the encoder builds; it exists when \<^verbatim>\<open>status\<close>, \<^verbatim>\<open>priority\<close> and
  \<^verbatim>\<open>severity\<close> hold enumeration members and \<^verbatim>\<open>updatedAt\<close> a \<^verbatim>\<open>datetime\<close>, as the
  fields of a \<^verbatim>\<open>Bug\<close> do.
\<close>

theorem encode_decode_roundtrip:
  "(bug_data L b = Inr data \<and> json_roundtrip L (PDict data)
      \<and> b_createdAt b = PDatetime c \<and> b_updatedAt b = PDatetime u
      \<and> iso_roundtrip L c \<and> iso_roundtrip L u \<longrightarrow>
      (\<exists>item. bug_to_collection_item L b = Inr item
         \<and> fst (collection_item_to_bug L now item) = Inr (b\<lparr> b_id := PNone \<rparr>)))
   \<and> (json_roundtrip L (PDict (comment_data cm)) \<and> iso_roundtrip L (c_createdAt cm) \<longrightarrow>
      (\<exists>item. comment_to_collection_item L cm = Inr item
         \<and> fst (collection_item_to_comment L now item) =
             Inr (cm\<lparr> c_id := PNone, c_createdAt := ensure_aware (c_createdAt cm) \<rparr>)))
   \<and> (json_roundtrip L (PDict (activity_log_data a)) \<and> iso_roundtrip L (a_timestamp a) \<longrightarrow>
      (\<exists>item. activity_log_to_collection_item L a = Inr item
         \<and> fst (collection_item_to_activity_log L now item) = Inr (a\<lparr> a_id := PNone \<rparr>)))"
  using bug_roundtrip [of L b data c u now] comment_roundtrip [of L cm now]
    activity_log_roundtrip [of L a now]
  by blast

lemma sample_roundtrips:
  "json_roundtrip sample_lib (PDict (sample_envelope ''Open'' PNone False ''2024-01-02T00:00:00''))"
  "json_roundtrip sample_lib (PDict (comment_data sample_comment))"
  "json_roundtrip sample_lib (PDict (activity_log_data sample_log))"
  "iso_roundtrip sample_lib t_2024_01_01"
  "iso_roundtrip sample_lib t_2024_01_02"
  "iso_roundtrip sample_lib t_2024_01_04_utc"
  by (simp_all add: json_roundtrip_def iso_roundtrip_def sample_isoformat sample_fromiso
      sample_dumps sample_loads sample_serializable del: serializable.simps)

text \<open>
  The sample entities have no id yet, and the sample comment is timezone-aware:
  each comes back from the round trip exactly as it was.
\<close>

theorem encode_decode_roundtrip_witness:
  "bug_data sample_lib sample_bug
     = Inr (sample_envelope ''Open'' PNone False ''2024-01-02T00:00:00'')
   \<and> b_createdAt sample_bug = PDatetime t_2024_01_01
   \<and> b_updatedAt sample_bug = PDatetime t_2024_01_02
   \<and> json_roundtrip sample_lib (PDict (sample_envelope ''Open'' PNone False ''2024-01-02T00:00:00''))
   \<and> json_roundtrip sample_lib (PDict (comment_data sample_comment))
   \<and> json_roundtrip sample_lib (PDict (activity_log_data sample_log))
   \<and> iso_roundtrip sample_lib t_2024_01_01
   \<and> iso_roundtrip sample_lib t_2024_01_02
   \<and> iso_roundtrip sample_lib t_2024_01_04_utc
   \<and> (\<exists>item. bug_to_collection_item sample_lib sample_bug = Inr item
         \<and> fst (collection_item_to_bug sample_lib 0 item) = Inr sample_bug)
   \<and> (\<exists>item. comment_to_collection_item sample_lib sample_comment = Inr item
         \<and> fst (collection_item_to_comment sample_lib 0 item) = Inr sample_comment)
   \<and> (\<exists>item. activity_log_to_collection_item sample_lib sample_log = Inr item
         \<and> fst (collection_item_to_activity_log sample_lib 0 item) = Inr sample_log)"
proof -
  have same: "sample_bug\<lparr> b_id := PNone \<rparr> = sample_bug"
    "sample_comment\<lparr> c_id := PNone,
       c_createdAt := ensure_aware (c_createdAt sample_comment) \<rparr> = sample_comment"
    "sample_comment\<lparr> c_id := PNone, c_createdAt := ensure_aware t_2024_01_04_utc \<rparr>
       = sample_comment"
    "sample_log\<lparr> a_id := PNone \<rparr> = sample_log"
    "b_createdAt sample_bug = PDatetime t_2024_01_01"
    "b_updatedAt sample_bug = PDatetime t_2024_01_02"
    "c_createdAt sample_comment = t_2024_01_04_utc"
    "a_timestamp sample_log = t_2024_01_01"
    by (simp_all add: sample_bug_def sample_comment_def sample_log_def ensure_aware_def
        t_2024_01_04_utc_def)
  show ?thesis
    using encode_decode_roundtrip [where b = sample_bug and c = t_2024_01_01
        and u = t_2024_01_02 and L = sample_lib and cm = sample_comment and a = sample_log
        and now = 0 and data = "sample_envelope ''Open'' PNone False ''2024-01-02T00:00:00''"]
      sample_roundtrips sample_bug_data
    by (simp add: same)
qed

text \<open>
  Claim C1 as stated fails. The sample bug with the id \<^verbatim>\<open>b1\<close> encodes to an item
  without the id and decodes to a bug whose id is \<^verbatim>\<open>None\<close>; the sample comment with a
  naive \<^verbatim>\<open>createdAt\<close> decodes to a comment whose \<^verbatim>\<open>createdAt\<close> is aware.
\<close>

theorem roundtrip_counterexample:
  "bug_to_collection_item sample_lib (sample_bug\<lparr> b_id := PStr ''b1'' \<rparr>) = Inr encoded_bug
   \<and> fst (collection_item_to_bug sample_lib 0 encoded_bug) = Inr (sample_bug\<lparr> b_id := PNone \<rparr>)
   \<and> sample_bug\<lparr> b_id := PNone \<rparr> \<noteq> sample_bug\<lparr> b_id := PStr ''b1'' \<rparr>
   \<and> comment_to_collection_item sample_lib (sample_comment\<lparr> c_createdAt := t_2024_01_01 \<rparr>)
       = Inr encoded_comment
   \<and> fst (collection_item_to_comment sample_lib 0 encoded_comment) =
       Inr (sample_comment\<lparr> c_createdAt := Datetime 1704067200000000 (Some 0) \<rparr>)
   \<and> sample_comment\<lparr> c_createdAt := Datetime 1704067200000000 (Some 0) \<rparr>
       \<noteq> sample_comment\<lparr> c_createdAt := t_2024_01_01 \<rparr>"
proof (intro conjI)
  show "bug_to_collection_item sample_lib (sample_bug\<lparr> b_id := PStr ''b1'' \<rparr>) = Inr encoded_bug"
  proof -
    have "bug_data sample_lib (sample_bug\<lparr> b_id := PStr ''b1'' \<rparr>)
            = Inr (sample_envelope ''Open'' PNone False ''2024-01-02T00:00:00'')"
      by (simp add: bug_data_def sample_bug_def sample_envelope_def sample_isoformat)
    then show ?thesis
      using sample_serializable(2) [of "''Open''" False "''2024-01-02T00:00:00''"]
      by (simp add: bug_to_collection_item_def py_dumps_def encoded_bug_def sample_isoformat
          sample_dumps del: serializable.simps)
        (simp add: sample_bug_def sample_isoformat)
  qed
  show "fst (collection_item_to_bug sample_lib 0 encoded_bug) = Inr (sample_bug\<lparr> b_id := PNone \<rparr>)"
    by (simp add: collection_item_to_bug_def unwrap_payload_def load_description_def
        encoded_bug_def dict_get_def sample_loads sample_fromiso bug_of_fields_def
        sample_envelope_def sample_bug_def)
  show "sample_bug\<lparr> b_id := PNone \<rparr> \<noteq> sample_bug\<lparr> b_id := PStr ''b1'' \<rparr>"
    by (simp add: sample_bug_def)
  show "comment_to_collection_item sample_lib (sample_comment\<lparr> c_createdAt := t_2024_01_01 \<rparr>)
       = Inr encoded_comment"
    using sample_dumps(6)
    by (simp add: comment_to_collection_item_def py_dumps_def encoded_comment_def
        sample_isoformat sample_comment_def comment_data_def comment_name_def)
  show "fst (collection_item_to_comment sample_lib 0 encoded_comment) =
       Inr (sample_comment\<lparr> c_createdAt := Datetime 1704067200000000 (Some 0) \<rparr>)"
    by (simp add: collection_item_to_comment_def unwrap_payload_def load_description_def
        encoded_comment_def dict_get_def sample_loads sample_fromiso comment_data_def
        sample_comment_def ensure_aware_def t_2024_01_01_def)
  show "sample_comment\<lparr> c_createdAt := Datetime 1704067200000000 (Some 0) \<rparr>
       \<noteq> sample_comment\<lparr> c_createdAt := t_2024_01_01 \<rparr>"
    by (simp add: sample_comment_def t_2024_01_01_def)
qed

section \<open>Decoding one item: defaults, timestamps, failures\<close>

text \<open>
  Claim C10. When the description of the (unwrapped) item is present and is not a
  string, each decoder returns an entity: the envelope counts as empty, and every
  field read from it has its default. For a bug these are the empty string for
  \<^verbatim>\<open>description\<close>, \<^verbatim>\<open>projectId\<close> and \<^verbatim>\<open>reportedBy\<close>, \<^verbatim>\<open>None\<close> for \<^verbatim>\<open>assignedTo\<close>, the
  status \<^verbatim>\<open>Open\<close>, the priority \<^verbatim>\<open>Medium\<close>, the severity \<^verbatim>\<open>Minor\<close>, no tags,
  \<^verbatim>\<open>validated\<close> false, and \<^verbatim>\<open>updatedAt\<close> equal to \<^verbatim>\<open>createdAt\<close>. The id, the title and
  \<^verbatim>\<open>createdAt\<close> come from the item itself.
\<close>

theorem non_string_description_defaults:
  assumes "fst (unwrap_payload item0) = Inr item"
    and "map_of item ''description'' = Some v"
    and "\<not> is_str v"
  shows "fst (collection_item_to_bug L now item0) =
      Inr \<lparr> b_id = dict_get item ''__auto_id__'' PNone,
            b_title = dict_get item ''name'' (PStr []),
            b_description = PStr [],
            b_projectId = PStr [],
            b_reportedBy = PStr [],
            b_assignedTo = PNone,
            b_status = PEnum ''Open'',
            b_priority = PEnum ''Medium'',
            b_severity = PEnum ''Minor'',
            b_tags = PList [],
            b_validated = PBool False,
            b_createdAt = PDatetime (fst (created_at_of L now (dict_get item ''created_at'' PNone))),
            b_updatedAt = PDatetime (fst (created_at_of L now (dict_get item ''created_at'' PNone))) \<rparr>
    \<and> fst (collection_item_to_comment L now item0) =
      Inr \<lparr> c_id = dict_get item ''__auto_id__'' PNone,
            c_bugId = PStr [],
            c_authorId = PStr [],
            c_message = PStr [],
            c_createdAt = fst (comment_created_at_of L now (dict_get item ''created_at'' PNone)) \<rparr>
    \<and> fst (collection_item_to_activity_log L now item0) =
      Inr \<lparr> a_id = dict_get item ''__auto_id__'' PNone,
            a_bugId = PStr [],
            a_bugTitle = PStr [],
            a_projectId = PStr [],
            a_projectName = PStr [],
            a_action = PStr [],
            a_performedBy = PStr [],
            a_performedByName = PStr [],
            a_assignedToName = PNone,
            a_newStatus = PNone,
            a_timestamp = fst (created_at_of L now (dict_get item ''created_at'' PNone)) \<rparr>"
proof -
  obtain l0 where u: "unwrap_payload item0 = (Inr item, l0)"
    using assms(1) by (cases "unwrap_payload item0") simp
  have d: "dict_get item ''description'' (PStr ''{}'') = v"
    using assms(2) by (rule dict_get_Some)
  have ld: "\<And>i. load_description L i v = (Inr (PDict []), [])"
    using assms(3) by (rule load_description_not_str)
  show ?thesis
    by (simp add: collection_item_to_bug_def collection_item_to_comment_def
        collection_item_to_activity_log_def u d ld bug_of_fields_def Let_def)
qed

text \<open>
  The description of \<open>object_item\<close> is a dictionary that says \<^verbatim>\<open>Closed\<close>; it is not read,
  and the decoded bug is \<^verbatim>\<open>Open\<close>.
\<close>

theorem non_string_description_defaults_witness:
  "fst (unwrap_payload object_item) = Inr object_item
   \<and> map_of object_item ''description''
       = Some (PDict [(''type'', PStr ''bug''), (''status'', PStr ''Closed'')])
   \<and> \<not> is_str (PDict [(''type'', PStr ''bug''), (''status'', PStr ''Closed'')])
   \<and> fst (collection_item_to_bug sample_lib 0 object_item) =
      Inr \<lparr> b_id = PStr ''b4'',
            b_title = PStr ''Raw'',
            b_description = PStr [],
            b_projectId = PStr [],
            b_reportedBy = PStr [],
            b_assignedTo = PNone,
            b_status = PEnum ''Open'',
            b_priority = PEnum ''Medium'',
            b_severity = PEnum ''Minor'',
            b_tags = PList [],
            b_validated = PBool False,
            b_createdAt = PDatetime t_2024_01_02,
            b_updatedAt = PDatetime t_2024_01_02 \<rparr>
   \<and> fst (collection_item_to_comment sample_lib 0 object_item) =
      Inr \<lparr> c_id = PStr ''b4'',
            c_bugId = PStr [],
            c_authorId = PStr [],
            c_message = PStr [],
            c_createdAt = Datetime 1704153600000000 (Some 0) \<rparr>
   \<and> fst (collection_item_to_activity_log sample_lib 0 object_item) =
      Inr \<lparr> a_id = PStr ''b4'',
            a_bugId = PStr [],
            a_bugTitle = PStr [],
            a_projectId = PStr [],
            a_projectName = PStr [],
            a_action = PStr [],
            a_performedBy = PStr [],
            a_performedByName = PStr [],
            a_assignedToName = PNone,
            a_newStatus = PNone,
            a_timestamp = t_2024_01_02 \<rparr>"
proof -
  have un: "fst (unwrap_payload object_item) = Inr object_item"
    by (simp add: unwrap_payload_def object_item_def)
  have d: "map_of object_item ''description''
             = Some (PDict [(''type'', PStr ''bug''), (''status'', PStr ''Closed'')])"
    by (simp add: object_item_def)
  have ns: "\<not> is_str (PDict [(''type'', PStr ''bug''), (''status'', PStr ''Closed'')])"
    by simp
  have fields: "dict_get object_item ''__auto_id__'' PNone = PStr ''b4''"
    "dict_get object_item ''name'' (PStr []) = PStr ''Raw''"
    "dict_get object_item ''created_at'' PNone = PStr ''2024-01-02T00:00:00''"
    by (simp_all add: object_item_def dict_get_def)
  show ?thesis
    using non_string_description_defaults [OF un d ns, of sample_lib 0] un d ns
    by (simp add: fields sample_fromiso ensure_aware_def t_2024_01_02_def)
qed

text \<open>
  Claim C6, as amended. Let the payload be unwrapped and the description hold a
  JSON object. If \<^verbatim>\<open>created_at\<close> is a string \<^verbatim>\<open>fromisoformat\<close> rejects, or a value of
  an unexpected type, all three decoders return an entity whose creation time is
  the current time in UTC, and log a warning. If the envelope's \<^verbatim>\<open>updatedAt\<close> is such
  a value, the Bug decoder returns a bug whose \<^verbatim>\<open>updatedAt\<close> is its \<^verbatim>\<open>createdAt\<close>, not
  the current time, and logs a warning. In neither case does the decode fail.
\<close>

theorem timestamp_fallback:
  assumes "fst (unwrap_payload item0) = Inr item"
    and "fst (load_description L (dict_get item ''__auto_id__'' PNone)
               (dict_get item ''description'' (PStr ''{}''))) = Inr (PDict data)"
  shows "(unusable_timestamp L (dict_get item ''created_at'' PNone) \<longrightarrow>
            (\<exists>b. fst (collection_item_to_bug L now item0) = Inr b
                  \<and> b_createdAt b = PDatetime (now_utc now))
            \<and> list_ex is_warning (snd (collection_item_to_bug L now item0))
            \<and> (\<exists>c. fst (collection_item_to_comment L now item0) = Inr c
                  \<and> c_createdAt c = now_utc now)
            \<and> list_ex is_warning (snd (collection_item_to_comment L now item0))
            \<and> (\<exists>a. fst (collection_item_to_activity_log L now item0) = Inr a
                  \<and> a_timestamp a = now_utc now)
            \<and> list_ex is_warning (snd (collection_item_to_activity_log L now item0)))
       \<and> (unusable_timestamp L (dict_get data ''updatedAt'' PNone) \<longrightarrow>
            (\<exists>b. fst (collection_item_to_bug L now item0) = Inr b
                  \<and> b_updatedAt b = b_createdAt b)
            \<and> list_ex is_warning (snd (collection_item_to_bug L now item0)))"
proof (intro conjI impI)
  assume bad: "unusable_timestamp L (dict_get item ''created_at'' PNone)"
  note c = created_at_unusable [OF bad, of now]
  note cc = comment_created_at_unusable [OF bad, of now]
  show "\<exists>b. fst (collection_item_to_bug L now item0) = Inr b
            \<and> b_createdAt b = PDatetime (now_utc now)"
    by (simp add: decode_bug_parsed(1) [OF assms] bug_of_fields_def c)
  show "list_ex is_warning (snd (collection_item_to_bug L now item0))"
    using c decode_bug_parsed(2) [OF assms, of now] by (blast intro: list_ex_subset)
  show "\<exists>c. fst (collection_item_to_comment L now item0) = Inr c \<and> c_createdAt c = now_utc now"
    by (simp add: decode_comment_parsed(1) [OF assms] cc)
  show "list_ex is_warning (snd (collection_item_to_comment L now item0))"
    using cc decode_comment_parsed(2) [OF assms, of now] by (blast intro: list_ex_subset)
  show "\<exists>a. fst (collection_item_to_activity_log L now item0) = Inr a
            \<and> a_timestamp a = now_utc now"
    by (simp add: decode_activity_log_parsed(1) [OF assms] c)
  show "list_ex is_warning (snd (collection_item_to_activity_log L now item0))"
    using c decode_activity_log_parsed(2) [OF assms, of now] by (blast intro: list_ex_subset)
next
  assume bad: "unusable_timestamp L (dict_get data ''updatedAt'' PNone)"
  note u = updated_at_unusable [OF bad]
  show "\<exists>b. fst (collection_item_to_bug L now item0) = Inr b \<and> b_updatedAt b = b_createdAt b"
    by (simp add: decode_bug_parsed(1) [OF assms] bug_of_fields_def u)
  show "list_ex is_warning (snd (collection_item_to_bug L now item0))"
    using u decode_bug_parsed(3) [OF assms, of now] by (blast intro: list_ex_subset)
qed

lemma undated_item_parsed:
  "fst (unwrap_payload undated_item) = Inr undated_item"
  "fst (load_description sample_lib (dict_get undated_item ''__auto_id__'' PNone)
         (dict_get undated_item ''description'' (PStr ''{}'')))
     = Inr (PDict [(''type'', PStr ''bug''), (''updatedAt'', PStr ''not-a-date'')])"
  by (simp_all add: unwrap_payload_def undated_item_def load_description_def dict_get_def
      sample_loads)

text \<open>
  Neither timestamp of \<open>undated_item\<close> can be read. Decoded when the clock reads
  \<open>1750000000000000\<close>, it has that time as \<^verbatim>\<open>createdAt\<close>, and a warning is logged.
\<close>

theorem timestamp_fallback_witness:
  "fst (unwrap_payload undated_item) = Inr undated_item
   \<and> fst (load_description sample_lib (dict_get undated_item ''__auto_id__'' PNone)
            (dict_get undated_item ''description'' (PStr ''{}'')))
       = Inr (PDict [(''type'', PStr ''bug''), (''updatedAt'', PStr ''not-a-date'')])
   \<and> unusable_timestamp sample_lib (dict_get undated_item ''created_at'' PNone)
   \<and> unusable_timestamp sample_lib
        (dict_get [(''type'', PStr ''bug''), (''updatedAt'', PStr ''not-a-date'')] ''updatedAt'' PNone)
   \<and> (\<exists>b. fst (collection_item_to_bug sample_lib 1750000000000000 undated_item) = Inr b
          \<and> b_createdAt b = PDatetime (now_utc 1750000000000000))
   \<and> (\<exists>b. fst (collection_item_to_bug sample_lib 1750000000000000 undated_item) = Inr b
          \<and> b_updatedAt b = b_createdAt b)
   \<and> list_ex is_warning (snd (collection_item_to_bug sample_lib 1750000000000000 undated_item))
   \<and> (\<exists>c. fst (collection_item_to_comment sample_lib 1750000000000000 undated_item) = Inr c
          \<and> c_createdAt c = now_utc 1750000000000000)
   \<and> list_ex is_warning (snd (collection_item_to_comment sample_lib 1750000000000000 undated_item))
   \<and> (\<exists>a. fst (collection_item_to_activity_log sample_lib 1750000000000000 undated_item) = Inr a
          \<and> a_timestamp a = now_utc 1750000000000000)
   \<and> list_ex is_warning
        (snd (collection_item_to_activity_log sample_lib 1750000000000000 undated_item))"
proof -
  have bad: "unusable_timestamp sample_lib (dict_get undated_item ''created_at'' PNone)"
    "unusable_timestamp sample_lib
        (dict_get [(''type'', PStr ''bug''), (''updatedAt'', PStr ''not-a-date'')] ''updatedAt'' PNone)"
    by (simp_all add: undated_item_def dict_get_def sample_fromiso)
  show ?thesis
    using timestamp_fallback [OF undated_item_parsed, of 1750000000000000] undated_item_parsed bad
    by simp
qed

text \<open>
  Claim C6 as stated fails for \<^verbatim>\<open>updatedAt\<close>. In \<open>stale_item\<close> the envelope's
  \<^verbatim>\<open>updatedAt\<close> is a string \<^verbatim>\<open>fromisoformat\<close> rejects and \<^verbatim>\<open>created_at\<close> reads as
  2024-01-01: the decoded \<^verbatim>\<open>updatedAt\<close> is 2024-01-01, not the current time.
\<close>

theorem updated_at_fallback_counterexample:
  "dict_get stale_item ''description'' PNone = PStr stale_bug_text
   \<and> json_loads sample_lib stale_bug_text
       = Some (PDict [(''type'', PStr ''bug''), (''updatedAt'', PStr ''not-a-date'')])
   \<and> fromisoformat sample_lib ''not-a-date'' = None
   \<and> fst (collection_item_to_bug sample_lib 1750000000000000 stale_item) =
      Inr \<lparr> b_id = PStr ''b2'',
            b_title = PStr ''Old'',
            b_description = PStr [],
            b_projectId = PStr [],
            b_reportedBy = PStr [],
            b_assignedTo = PNone,
            b_status = PEnum ''Open'',
            b_priority = PEnum ''Medium'',
            b_severity = PEnum ''Minor'',
            b_tags = PList [],
            b_validated = PBool False,
            b_createdAt = PDatetime t_2024_01_01,
            b_updatedAt = PDatetime t_2024_01_01 \<rparr>
   \<and> t_2024_01_01 \<noteq> now_utc 1750000000000000"
  by (simp add: collection_item_to_bug_def unwrap_payload_def load_description_def stale_item_def
      dict_get_def sample_loads sample_fromiso bug_of_fields_def t_2024_01_01_def now_utc_def)

text \<open>
  Claim C4 at the item whose description is the JSON text \<^verbatim>\<open>5\<close>. The text parses, so
  no \<open>MalformedEnvelope\<close> is raised; the decoders then call \<^verbatim>\<open>data.get\<close> on the number
  and fail with \<open>AttributeError\<close>, which the by-id read passes on. The item whose
  description is not JSON fails with \<open>MalformedEnvelope\<close> and its id \<^verbatim>\<open>x1\<close>.
\<close>

theorem decode_number_description:
  "json_loads sample_lib ''5'' = Some (PInt 5)
   \<and> fst (collection_item_to_bug sample_lib 0 number_item) = Inl AttributeError
   \<and> fst (collection_item_to_comment sample_lib 0 number_item) = Inl AttributeError
   \<and> fst (collection_item_to_activity_log sample_lib 0 number_item) = Inl AttributeError
   \<and> bug_get_by_id sample_lib sample_service 0 ''x2'' =
       (Inl AttributeError, [GetItemById collection ''x2''])
   \<and> bug_get_by_id sample_lib sample_service 0 ''x1'' =
       (Inl (MalformedEnvelope (PStr ''x1'')), [GetItemById collection ''x1''])"
  by (simp add: collection_item_to_bug_def collection_item_to_comment_def
      collection_item_to_activity_log_def unwrap_payload_def load_description_def
      number_item_def broken_item_def dict_get_def sample_loads bug_get_by_id_def
      sample_service_def sample_lookup_eval)

section \<open>List operations: what is kept, and in which order\<close>

lemma filter_items_filter:
  "filter_items keep items = Inr kept \<Longrightarrow> kept = filter (\<lambda>item. keep item = Inr True) items"
proof (induction items arbitrary: kept)
  case Nil
  then show ?case by simp
next
  case (Cons item items)
  then show ?case
    by (auto split: sum.splits if_splits)
qed

lemma filter_items_total:
  "(\<And>item. item \<in> set items \<Longrightarrow> \<exists>k. keep item = Inr k) \<Longrightarrow>
   filter_items keep items = Inr (filter (\<lambda>item. keep item = Inr True) items)"
proof (induction items)
  case Nil
  then show ?case by simp
next
  case (Cons item items)
  then obtain k where k: "keep item = Inr k" by auto
  from Cons have "filter_items keep items = Inr (filter (\<lambda>item. keep item = Inr True) items)"
    by simp
  with k show ?case by simp
qed

lemma filter_items_error:
  "item \<in> set items \<Longrightarrow> keep item = Inl e \<Longrightarrow> \<exists>e'. filter_items keep items = Inl e'"
  by (induction items) (auto split: sum.splits)

lemma decode_items_length:
  "decode_items decode clock k items = Inr xs \<Longrightarrow> length xs = length items"
  by (induction items arbitrary: k xs) (auto split: sum.splits)

lemma decode_items_total:
  "(\<And>now item. item \<in> set items \<Longrightarrow> \<exists>x. decode now item = Inr x) \<Longrightarrow>
   \<exists>xs. decode_items decode clock k items = Inr xs \<and> length xs = length items"
proof (induction items arbitrary: k)
  case Nil
  then show ?case by simp
next
  case (Cons item items)
  then obtain x where x: "decode (clock k) item = Inr x" by (meson list.set_intros(1))
  from Cons obtain xs where "decode_items decode clock (Suc k) items = Inr xs"
    "length xs = length items" by (meson list.set_intros(2))
  with x show ?case by simp
qed

text \<open>An item a loop body appends has the envelope type of the repository.\<close>

lemma bug_keep_type:
  assumes "bug_keep L p s a item = Inr True"
  shows "envelope_type L item = Some (PStr ''bug'')"
proof (cases "map_of item ''description''")
  case None
  with assms show ?thesis by (simp add: bug_keep_def dict_get_def)
next
  case (Some v)
  with assms show ?thesis
    by (cases v)
      (auto simp: bug_keep_def dict_get_def envelope_type_def Let_def
        split: option.splits pyval.splits if_splits)
qed

lemma comment_keep_type:
  assumes "comment_keep L b item = Inr True"
  shows "envelope_type L item = Some (PStr ''comment'')"
proof (cases "map_of item ''description''")
  case None
  with assms show ?thesis by (simp add: comment_keep_def dict_get_def)
next
  case (Some v)
  with assms show ?thesis
    by (cases v)
      (auto simp: comment_keep_def loads_any_def dict_get_def envelope_type_def Let_def
        split: option.splits pyval.splits if_splits)
qed

lemma activity_log_keep_type:
  assumes "activity_log_keep L b item = Inr True"
  shows "envelope_type L item = Some (PStr ''activity_log'')"
proof (cases "map_of item ''description''")
  case None
  with assms show ?thesis by (simp add: activity_log_keep_def dict_get_def)
next
  case (Some v)
  with assms show ?thesis
    by (cases v)
      (auto simp: activity_log_keep_def loads_any_def dict_get_def envelope_type_def Let_def
        split: option.splits pyval.splits if_splits)
qed

lemma sort_by_datetime_mset:
  "sort_by_datetime key r xs = Inr ys \<Longrightarrow> mset ys = mset xs"
  by (auto simp: sort_by_datetime_def split: if_splits)

lemma sort_by_datetime_ascending:
  "sort_by_datetime key False xs = Inr ys \<Longrightarrow> sorted (map (\<lambda>x. instant (key x)) ys)"
  by (auto simp: sort_by_datetime_def split: if_splits)

lemma sort_by_datetime_descending:
  "sort_by_datetime key True xs = Inr ys \<Longrightarrow> descending (map (\<lambda>x. instant (key x)) ys)"
  by (auto simp: sort_by_datetime_def descending_def rev_map [symmetric] split: if_splits)

text \<open>
  Claim C2. Whatever the store returned and in whatever order, the entities a list
  operation returns are the decoded items of a subsequence \<open>kept\<close> of the store's
  list, and every item of \<open>kept\<close> has the repository's own discriminator as its
  envelope \<^verbatim>\<open>type\<close>: \<^verbatim>\<open>bug\<close> for \<^verbatim>\<open>BugRepository.get_all\<close> (under any filter),
  \<^verbatim>\<open>comment\<close> for \<^verbatim>\<open>CommentRepository.get_by_bug_id\<close>, \<^verbatim>\<open>activity_log\<close> for the two
  ActivityLog operations. The sorted operations return the decoded entities
  rearranged.
\<close>

theorem list_type_discrimination:
  "(bug_get_all L clock items p s a = Inr bugs \<longrightarrow>
      (\<exists>kept. subseq kept items
         \<and> (\<forall>item\<in>set kept. envelope_type L item = Some (PStr ''bug''))
         \<and> decode_items (\<lambda>now item. fst (collection_item_to_bug L now item)) clock 0 kept
             = Inr bugs))
   \<and> (comment_get_by_bug_id L clock items b = Inr comments \<longrightarrow>
      (\<exists>kept decoded. subseq kept items
         \<and> (\<forall>item\<in>set kept. envelope_type L item = Some (PStr ''comment''))
         \<and> decode_items (\<lambda>now item. fst (collection_item_to_comment L now item)) clock 0 kept
             = Inr decoded
         \<and> mset comments = mset decoded))
   \<and> (activity_log_get_by_bug_id L clock items b = Inr logs \<longrightarrow>
      (\<exists>kept decoded. subseq kept items
         \<and> (\<forall>item\<in>set kept. envelope_type L item = Some (PStr ''activity_log''))
         \<and> decode_items (\<lambda>now item. fst (collection_item_to_activity_log L now item)) clock 0 kept
             = Inr decoded
         \<and> mset logs = mset decoded))
   \<and> (activity_log_get_all L clock items = Inr all_logs \<longrightarrow>
      (\<exists>kept decoded. subseq kept items
         \<and> (\<forall>item\<in>set kept. envelope_type L item = Some (PStr ''activity_log''))
         \<and> decode_items (\<lambda>now item. fst (collection_item_to_activity_log L now item)) clock 0 kept
             = Inr decoded
         \<and> mset all_logs = mset decoded))"
proof (intro conjI impI)
  assume r: "bug_get_all L clock items p s a = Inr bugs"
  then obtain kept where k: "filter_items (bug_keep L p s a) items = Inr kept"
    and d: "decode_items (\<lambda>now item. fst (collection_item_to_bug L now item)) clock 0 kept = Inr bugs"
    by (auto simp: bug_get_all_def split: sum.splits)
  note f = filter_items_filter [OF k]
  have "subseq kept items" by (simp add: f)
  moreover have "\<forall>item\<in>set kept. envelope_type L item = Some (PStr ''bug'')"
    by (auto simp: f intro: bug_keep_type)
  ultimately show "\<exists>kept. subseq kept items
         \<and> (\<forall>item\<in>set kept. envelope_type L item = Some (PStr ''bug''))
         \<and> decode_items (\<lambda>now item. fst (collection_item_to_bug L now item)) clock 0 kept
             = Inr bugs"
    using d by blast
next
  assume r: "comment_get_by_bug_id L clock items b = Inr comments"
  then obtain kept decoded where k: "filter_items (comment_keep L b) items = Inr kept"
    and d: "decode_items (\<lambda>now item. fst (collection_item_to_comment L now item)) clock 0 kept
              = Inr decoded"
    and s: "sort_by_datetime c_createdAt False decoded = Inr comments"
    by (auto simp: comment_get_by_bug_id_def split: sum.splits)
  note f = filter_items_filter [OF k]
  have "subseq kept items" by (simp add: f)
  moreover have "\<forall>item\<in>set kept. envelope_type L item = Some (PStr ''comment'')"
    by (auto simp: f intro: comment_keep_type)
  ultimately show "\<exists>kept decoded. subseq kept items
         \<and> (\<forall>item\<in>set kept. envelope_type L item = Some (PStr ''comment''))
         \<and> decode_items (\<lambda>now item. fst (collection_item_to_comment L now item)) clock 0 kept
             = Inr decoded
         \<and> mset comments = mset decoded"
    using d sort_by_datetime_mset [OF s] by blast
next
  assume r: "activity_log_get_by_bug_id L clock items b = Inr logs"
  then obtain kept decoded where k: "filter_items (activity_log_keep L (Some b)) items = Inr kept"
    and d: "decode_items (\<lambda>now item. fst (collection_item_to_activity_log L now item)) clock 0 kept
              = Inr decoded"
    and s: "sort_by_datetime a_timestamp True decoded = Inr logs"
    by (auto simp: activity_log_get_by_bug_id_def activity_log_list_def split: sum.splits)
  note f = filter_items_filter [OF k]
  have "subseq kept items" by (simp add: f)
  moreover have "\<forall>item\<in>set kept. envelope_type L item = Some (PStr ''activity_log'')"
    by (auto simp: f intro: activity_log_keep_type)
  ultimately show "\<exists>kept decoded. subseq kept items
         \<and> (\<forall>item\<in>set kept. envelope_type L item = Some (PStr ''activity_log''))
         \<and> decode_items (\<lambda>now item. fst (collection_item_to_activity_log L now item)) clock 0 kept
             = Inr decoded
         \<and> mset logs = mset decoded"
    using d sort_by_datetime_mset [OF s] by blast
next
  assume r: "activity_log_get_all L clock items = Inr all_logs"
  then obtain kept decoded where k: "filter_items (activity_log_keep L None) items = Inr kept"
    and d: "decode_items (\<lambda>now item. fst (collection_item_to_activity_log L now item)) clock 0 kept
              = Inr decoded"
    and s: "sort_by_datetime a_timestamp True decoded = Inr all_logs"
    by (auto simp: activity_log_get_all_def activity_log_list_def split: sum.splits)
  note f = filter_items_filter [OF k]
  have "subseq kept items" by (simp add: f)
  moreover have "\<forall>item\<in>set kept. envelope_type L item = Some (PStr ''activity_log'')"
    by (auto simp: f intro: activity_log_keep_type)
  ultimately show "\<exists>kept decoded. subseq kept items
         \<and> (\<forall>item\<in>set kept. envelope_type L item = Some (PStr ''activity_log''))
         \<and> decode_items (\<lambda>now item. fst (collection_item_to_activity_log L now item)) clock 0 kept
             = Inr decoded
         \<and> mset all_logs = mset decoded"
    using d sort_by_datetime_mset [OF s] by blast
qed

text \<open>
  The sample items interleave two comments, two activity-log entries, a bug and an
  item that is not JSON. Each operation returns the entities of its own kind only.
\<close>

theorem list_type_discrimination_witness:
  "bug_get_all sample_lib (\<lambda>k. 0) sample_items None None None
     = Inr [sample_bug\<lparr> b_id := PStr ''b1'' \<rparr>]
   \<and> comment_get_by_bug_id sample_lib (\<lambda>k. 0) sample_items ''b1''
     = Inr [sample_comment\<lparr> c_id := PStr ''c2'',
                            c_createdAt := Datetime 1704067200000000 (Some 0) \<rparr>,
            sample_comment\<lparr> c_id := PStr ''c1'' \<rparr>]
   \<and> activity_log_get_by_bug_id sample_lib (\<lambda>k. 0) sample_items ''b1''
     = Inr [sample_log\<lparr> a_id := PStr ''l2'', a_timestamp := t_2024_01_03 \<rparr>,
            sample_log\<lparr> a_id := PStr ''l1'' \<rparr>]
   \<and> activity_log_get_all sample_lib (\<lambda>k. 0) sample_items
     = Inr [sample_log\<lparr> a_id := PStr ''l2'', a_timestamp := t_2024_01_03 \<rparr>,
            sample_log\<lparr> a_id := PStr ''l1'' \<rparr>]
   \<and> (\<exists>kept. subseq kept sample_items
         \<and> list_all (\<lambda>item. envelope_type sample_lib item = Some (PStr ''bug'')) kept
         \<and> decode_items (\<lambda>now item. fst (collection_item_to_bug sample_lib now item)) (\<lambda>k. 0) 0 kept
             = Inr [sample_bug\<lparr> b_id := PStr ''b1'' \<rparr>])
   \<and> (\<exists>kept decoded. subseq kept sample_items
         \<and> list_all (\<lambda>item. envelope_type sample_lib item = Some (PStr ''comment'')) kept
         \<and> decode_items (\<lambda>now item. fst (collection_item_to_comment sample_lib now item))
               (\<lambda>k. 0) 0 kept = Inr decoded
         \<and> mset [sample_comment\<lparr> c_id := PStr ''c2'',
                                  c_createdAt := Datetime 1704067200000000 (Some 0) \<rparr>,
                  sample_comment\<lparr> c_id := PStr ''c1'' \<rparr>] = mset decoded)
   \<and> (\<exists>kept decoded. subseq kept sample_items
         \<and> list_all (\<lambda>item. envelope_type sample_lib item = Some (PStr ''activity_log'')) kept
         \<and> decode_items (\<lambda>now item. fst (collection_item_to_activity_log sample_lib now item))
               (\<lambda>k. 0) 0 kept = Inr decoded
         \<and> mset [sample_log\<lparr> a_id := PStr ''l2'', a_timestamp := t_2024_01_03 \<rparr>,
                  sample_log\<lparr> a_id := PStr ''l1'' \<rparr>] = mset decoded)"
  using list_type_discrimination [where L = sample_lib and clock = "\<lambda>k. 0"
      and items = sample_items and p = None and s = None and a = None and b = "''b1''"
      and bugs = "[sample_bug\<lparr> b_id := PStr ''b1'' \<rparr>]"
      and comments = "[sample_comment\<lparr> c_id := PStr ''c2'',
                            c_createdAt := Datetime 1704067200000000 (Some 0) \<rparr>,
            sample_comment\<lparr> c_id := PStr ''c1'' \<rparr>]"
      and logs = "[sample_log\<lparr> a_id := PStr ''l2'', a_timestamp := t_2024_01_03 \<rparr>,
            sample_log\<lparr> a_id := PStr ''l1'' \<rparr>]"
      and all_logs = "[sample_log\<lparr> a_id := PStr ''l2'', a_timestamp := t_2024_01_03 \<rparr>,
            sample_log\<lparr> a_id := PStr ''l1'' \<rparr>]"]
    sample_bug_get_all sample_comment_get_by_bug_id sample_activity_log_get_by_bug_id
    sample_activity_log_get_all
  by (simp add: list_all_iff)

text \<open>
  The order of a list that is returned. Whenever one of the three sorted operations
  returns a list, the entries of \<^verbatim>\<open>ActivityLogRepository.get_all\<close> and \<^verbatim>\<open>get_by_bug_id\<close>
  are in descending order of their timestamp, newest first, and the comments of
  \<^verbatim>\<open>CommentRepository.get_by_bug_id\<close> are in ascending order of their creation time. It
  says nothing about the store answers at which the operation raises.
\<close>

lemma list_sort_order:
  "(activity_log_get_all L clock items = Inr all_logs \<longrightarrow>
      descending (map (\<lambda>l. instant (a_timestamp l)) all_logs))
   \<and> (activity_log_get_by_bug_id L clock items b = Inr logs \<longrightarrow>
      descending (map (\<lambda>l. instant (a_timestamp l)) logs))
   \<and> (comment_get_by_bug_id L clock items b = Inr comments \<longrightarrow>
      sorted (map (\<lambda>c. instant (c_createdAt c)) comments))"
  by (auto simp: activity_log_get_all_def activity_log_get_by_bug_id_def activity_log_list_def
      comment_get_by_bug_id_def
      split: sum.splits
      intro: sort_by_datetime_descending sort_by_datetime_ascending)

text \<open>
  In the sample items the older log entry and the later comment come first. The
  operations return the later log entry first and the earlier comment first.
\<close>

lemma list_sort_order_sample:
  "activity_log_get_all sample_lib (\<lambda>k. 0) sample_items
     = Inr [sample_log\<lparr> a_id := PStr ''l2'', a_timestamp := t_2024_01_03 \<rparr>,
            sample_log\<lparr> a_id := PStr ''l1'' \<rparr>]
   \<and> activity_log_get_by_bug_id sample_lib (\<lambda>k. 0) sample_items ''b1''
     = Inr [sample_log\<lparr> a_id := PStr ''l2'', a_timestamp := t_2024_01_03 \<rparr>,
            sample_log\<lparr> a_id := PStr ''l1'' \<rparr>]
   \<and> comment_get_by_bug_id sample_lib (\<lambda>k. 0) sample_items ''b1''
     = Inr [sample_comment\<lparr> c_id := PStr ''c2'',
                            c_createdAt := Datetime 1704067200000000 (Some 0) \<rparr>,
            sample_comment\<lparr> c_id := PStr ''c1'' \<rparr>]
   \<and> descending
        (map (\<lambda>l. instant (a_timestamp l))
           [sample_log\<lparr> a_id := PStr ''l2'', a_timestamp := t_2024_01_03 \<rparr>,
            sample_log\<lparr> a_id := PStr ''l1'' \<rparr>])
   \<and> sorted
        (map (\<lambda>c. instant (c_createdAt c))
           [sample_comment\<lparr> c_id := PStr ''c2'',
                            c_createdAt := Datetime 1704067200000000 (Some 0) \<rparr>,
            sample_comment\<lparr> c_id := PStr ''c1'' \<rparr>])
   \<and> map (\<lambda>l. instant (a_timestamp l))
        [sample_log\<lparr> a_id := PStr ''l2'', a_timestamp := t_2024_01_03 \<rparr>,
         sample_log\<lparr> a_id := PStr ''l1'' \<rparr>] = [1704240000000000, 1704067200000000]
   \<and> map (\<lambda>c. instant (c_createdAt c))
        [sample_comment\<lparr> c_id := PStr ''c2'',
                         c_createdAt := Datetime 1704067200000000 (Some 0) \<rparr>,
         sample_comment\<lparr> c_id := PStr ''c1'' \<rparr>] = [1704067200000000, 1704326400000000]"
proof -
  have readings:
    "map (\<lambda>l. instant (a_timestamp l))
        [sample_log\<lparr> a_id := PStr ''l2'', a_timestamp := t_2024_01_03 \<rparr>,
         sample_log\<lparr> a_id := PStr ''l1'' \<rparr>] = [1704240000000000, 1704067200000000]"
    "map (\<lambda>c. instant (c_createdAt c))
        [sample_comment\<lparr> c_id := PStr ''c2'',
                         c_createdAt := Datetime 1704067200000000 (Some 0) \<rparr>,
         sample_comment\<lparr> c_id := PStr ''c1'' \<rparr>] = [1704067200000000, 1704326400000000]"
    by (simp_all add: instant_def sample_log_def sample_comment_def sample_times)
  show ?thesis
    using list_sort_order [where L = sample_lib and clock = "\<lambda>k. 0" and items = sample_items
        and b = "''b1''"
        and all_logs = "[sample_log\<lparr> a_id := PStr ''l2'', a_timestamp := t_2024_01_03 \<rparr>,
            sample_log\<lparr> a_id := PStr ''l1'' \<rparr>]"
        and logs = "[sample_log\<lparr> a_id := PStr ''l2'', a_timestamp := t_2024_01_03 \<rparr>,
            sample_log\<lparr> a_id := PStr ''l1'' \<rparr>]"
        and comments = "[sample_comment\<lparr> c_id := PStr ''c2'',
                            c_createdAt := Datetime 1704067200000000 (Some 0) \<rparr>,
            sample_comment\<lparr> c_id := PStr ''c1'' \<rparr>]"]
      sample_activity_log_get_all sample_activity_log_get_by_bug_id sample_comment_get_by_bug_id
      readings
    by simp
qed

text \<open>
  Claim C8, at a store answer for which it fails. The claim is that for every store
  result \<^verbatim>\<open>ActivityLogRepository.get_all\<close> and \<^verbatim>\<open>get_by_bug_id\<close> return the entries
  newest first. The store answers with two activity-log items of bug \<^verbatim>\<open>b1\<close>: one with
  \<^verbatim>\<open>created_at\<close> \<^verbatim>\<open>2024-01-01T00:00:00\<close> and one with \<^verbatim>\<open>created_at\<close> \<^verbatim>\<open>not-a-date\<close>. Both
  items decode: the first timestamp is the naive value \<^verbatim>\<open>fromisoformat\<close> reads, the second
  is the timezone-aware \<^verbatim>\<open>datetime.now(timezone.utc)\<close> of the fallback, the decoder of
  activity logs leaving a naive value naive. \<^verbatim>\<open>logs.sort\<close> then compares a naive with an
  aware value and raises \<^verbatim>\<open>TypeError\<close>, so neither operation returns a list. On two
  comments with the same two \<^verbatim>\<open>created_at\<close> values \<^verbatim>\<open>CommentRepository.get_by_bug_id\<close>
  returns, oldest first, because its decoder makes the parsed value aware.
\<close>

theorem list_sort_mixed_timestamps:
  "fst (collection_item_to_activity_log sample_lib 1750000000000000 stored_log_early)
     = Inr (sample_log\<lparr> a_id := PStr ''l1'', a_timestamp := Datetime 1704067200000000 None \<rparr>)
   \<and> fst (collection_item_to_activity_log sample_lib 1750000000000000 undated_log)
     = Inr (sample_log\<lparr> a_id := PStr ''l3'',
                         a_timestamp := Datetime 1750000000000000 (Some 0) \<rparr>)
   \<and> activity_log_get_all sample_lib (\<lambda>k. 1750000000000000) [stored_log_early, undated_log]
     = Inl TypeError
   \<and> activity_log_get_by_bug_id sample_lib (\<lambda>k. 1750000000000000)
        [stored_log_early, undated_log] ''b1''
     = Inl TypeError
   \<and> activity_log_get_all sample_lib (\<lambda>k. 1750000000000000) [undated_log, stored_log_early]
     = Inl TypeError
   \<and> comment_get_by_bug_id sample_lib (\<lambda>k. 1750000000000000)
        [undated_comment, stored_comment_early] ''b1''
     = Inr [sample_comment\<lparr> c_id := PStr ''c2'',
                            c_createdAt := Datetime 1704067200000000 (Some 0) \<rparr>,
            sample_comment\<lparr> c_id := PStr ''c3'',
                            c_createdAt := Datetime 1750000000000000 (Some 0) \<rparr>]"
proof -
  have early: "fst (collection_item_to_activity_log sample_lib now stored_log_early)
     = Inr (sample_log\<lparr> a_id := PStr ''l1'', a_timestamp := Datetime 1704067200000000 None \<rparr>)"
    for now
    by (simp add: collection_item_to_activity_log_def unwrap_payload_def load_description_def
        stored_log_early_def dict_get_def sample_loads sample_fromiso activity_log_data_def
        sample_log_def t_2024_01_01_def)
  have undated: "fst (collection_item_to_activity_log sample_lib now undated_log)
     = Inr (sample_log\<lparr> a_id := PStr ''l3'', a_timestamp := Datetime now (Some 0) \<rparr>)"
    for now
    by (simp add: collection_item_to_activity_log_def unwrap_payload_def load_description_def
        undated_log_def dict_get_def sample_loads sample_fromiso activity_log_data_def
        sample_log_def now_utc_def)
  have keep:
    "activity_log_keep sample_lib None stored_log_early = Inr True"
    "activity_log_keep sample_lib None undated_log = Inr True"
    "activity_log_keep sample_lib (Some ''b1'') stored_log_early = Inr True"
    "activity_log_keep sample_lib (Some ''b1'') undated_log = Inr True"
    by (simp_all add: activity_log_keep_def loads_any_def dict_get_def sample_loads
        sample_texts_nonempty stored_log_early_def undated_log_def activity_log_data_def
        sample_log_def)
  have lists:
    "activity_log_list sample_lib (\<lambda>k. 1750000000000000) [stored_log_early, undated_log] None
       = Inl TypeError"
    "activity_log_list sample_lib (\<lambda>k. 1750000000000000) [stored_log_early, undated_log]
        (Some ''b1'') = Inl TypeError"
    "activity_log_list sample_lib (\<lambda>k. 1750000000000000) [undated_log, stored_log_early] None
       = Inl TypeError"
    by (simp_all add: activity_log_list_def keep early undated sort_by_datetime_def
        comparable_def)
  have ckeep:
    "comment_keep sample_lib ''b1'' undated_comment = Inr True"
    "comment_keep sample_lib ''b1'' stored_comment_early = Inr True"
    by (simp_all add: comment_keep_def loads_any_def dict_get_def sample_loads
        sample_texts_nonempty undated_comment_def stored_comment_early_def comment_data_def
        sample_comment_def)
  have cdec:
    "fst (collection_item_to_comment sample_lib now undated_comment)
       = Inr (sample_comment\<lparr> c_id := PStr ''c3'', c_createdAt := Datetime now (Some 0) \<rparr>)"
    for now
    by (simp add: collection_item_to_comment_def unwrap_payload_def load_description_def
        undated_comment_def dict_get_def sample_loads sample_fromiso comment_data_def
        sample_comment_def now_utc_def)
  have comments:
    "comment_get_by_bug_id sample_lib (\<lambda>k. 1750000000000000)
        [undated_comment, stored_comment_early] ''b1''
     = Inr [sample_comment\<lparr> c_id := PStr ''c2'',
                            c_createdAt := Datetime 1704067200000000 (Some 0) \<rparr>,
            sample_comment\<lparr> c_id := PStr ''c3'',
                            c_createdAt := Datetime 1750000000000000 (Some 0) \<rparr>]"
    by (simp add: comment_get_by_bug_id_def ckeep cdec decode_stored_comment_early
        sort_by_datetime_def comparable_def instant_def sample_comment_def)
  show ?thesis
    using early [of 1750000000000000] undated [of 1750000000000000] lists comments
    by (simp add: activity_log_get_all_def activity_log_get_by_bug_id_def)
qed

section \<open>List operations: which items are skipped, and which make the listing fail\<close>

text \<open>
  The loop and the comprehension succeed when every pass of the loop body returns
  and every appended item decodes; the result then has one entity for each item
  the body appended.
\<close>

lemma filter_then_decode:
  assumes "\<And>item. item \<in> set items \<Longrightarrow> \<exists>k. keep item = Inr k"
    and "\<And>now item. item \<in> set items \<Longrightarrow> keep item = Inr True \<Longrightarrow> \<exists>x. decode now item = Inr x"
  shows "\<exists>xs. filter_items keep items = Inr (filter (\<lambda>item. keep item = Inr True) items)
           \<and> decode_items decode clock 0 (filter (\<lambda>item. keep item = Inr True) items) = Inr xs
           \<and> length xs = length (filter (\<lambda>item. keep item = Inr True) items)"
proof -
  have "\<exists>xs. decode_items decode clock 0 (filter (\<lambda>item. keep item = Inr True) items) = Inr xs
          \<and> length xs = length (filter (\<lambda>item. keep item = Inr True) items)"
    by (rule decode_items_total) (use assms(2) in auto)
  with filter_items_total [of items keep, OF assms(1)] show ?thesis by blast
qed

text \<open>
  A pass of the Bug loop body returns unless the description is a string holding
  JSON other than an object; it skips an item whose description is missing, empty,
  not a string, or not JSON.
\<close>

lemma bug_keep_returns:
  assumes "\<forall>s v. map_of item ''description'' = Some (PStr s) \<longrightarrow> json_loads L s = Some v
             \<longrightarrow> (\<exists>data. v = PDict data)"
  shows "\<exists>k. bug_keep L p st a item = Inr k"
proof (cases "map_of item ''description''")
  case None
  then have "bug_keep L p st a item = Inr False"
    by (simp add: bug_keep_def dict_get_def)
  then show ?thesis by blast
next
  case (Some d)
  show ?thesis
  proof (cases "is_str d")
    case False
    with Some have "bug_keep L p st a item = Inr False"
      by (cases d) (simp_all add: bug_keep_def dict_get_def)
    then show ?thesis by blast
  next
    case True
    then obtain s where s: "d = PStr s" by (cases d) simp_all
    show ?thesis
    proof (cases "json_loads L s")
      case None
      with Some s have "bug_keep L p st a item = Inr False"
        by (simp add: bug_keep_def dict_get_def)
      then show ?thesis by blast
    next
      case (Some v)
      with assms \<open>map_of item ''description'' = Some d\<close> s obtain data where "v = PDict data"
        by blast
      with Some \<open>map_of item ''description'' = Some d\<close> s show ?thesis
        by (auto simp: bug_keep_def dict_get_def)
    qed
  qed
qed

lemma bug_keep_skips_unparseable:
  "map_of item ''description'' = Some (PStr s) \<Longrightarrow> json_loads L s = None \<Longrightarrow>
   bug_keep L p st a item = Inr False"
  by (simp add: bug_keep_def dict_get_def)

lemma comment_keep_skips_unparseable:
  "map_of item ''description'' = Some (PStr s) \<Longrightarrow> json_loads L s = None \<Longrightarrow>
   comment_keep L b item = Inr False"
  by (simp add: comment_keep_def loads_any_def dict_get_def)

lemma activity_log_keep_skips_unparseable:
  "map_of item ''description'' = Some (PStr s) \<Longrightarrow> json_loads L s = None \<Longrightarrow>
   activity_log_keep L b item = Inr False"
  by (simp add: activity_log_keep_def loads_any_def dict_get_def)

text \<open>An appended item that has no payload wrapper decodes.\<close>

lemma bug_keep_decodes:
  assumes "bug_keep L p st a item = Inr True" and "map_of item ''payload'' = None"
  shows "\<exists>b. fst (collection_item_to_bug L now item) = Inr b"
proof -
  from assms(1) obtain s data where d: "map_of item ''description'' = Some (PStr s)"
    and l: "json_loads L s = Some (PDict data)"
    by (cases "map_of item ''description''")
      (auto simp: bug_keep_def dict_get_def Let_def split: option.splits pyval.splits if_splits)
  have un: "fst (unwrap_payload item) = Inr item"
    using assms(2) by (simp add: unwrap_payload_def)
  have ld: "fst (load_description L (dict_get item ''__auto_id__'' PNone)
               (dict_get item ''description'' (PStr ''{}''))) = Inr (PDict data)"
    by (simp add: dict_get_Some [OF d] load_description_def l)
  show ?thesis
    by (simp add: decode_bug_parsed(1) [OF un ld])
qed

lemma comment_keep_decodes:
  assumes "comment_keep L b item = Inr True" and "map_of item ''payload'' = None"
  shows "\<exists>c. fst (collection_item_to_comment L now item) = Inr c"
proof -
  from assms(1) obtain s data where d: "map_of item ''description'' = Some (PStr s)"
    and l: "json_loads L s = Some (PDict data)"
    by (cases "map_of item ''description''")
      (auto simp: comment_keep_def loads_any_def dict_get_def Let_def
        split: option.splits pyval.splits if_splits)
  have un: "fst (unwrap_payload item) = Inr item"
    using assms(2) by (simp add: unwrap_payload_def)
  have ld: "fst (load_description L (dict_get item ''__auto_id__'' PNone)
               (dict_get item ''description'' (PStr ''{}''))) = Inr (PDict data)"
    by (simp add: dict_get_Some [OF d] load_description_def l)
  show ?thesis
    by (simp add: decode_comment_parsed(1) [OF un ld])
qed

lemma activity_log_keep_decodes:
  assumes "activity_log_keep L b item = Inr True" and "map_of item ''payload'' = None"
  shows "\<exists>a. fst (collection_item_to_activity_log L now item) = Inr a"
proof -
  from assms(1) obtain s data where d: "map_of item ''description'' = Some (PStr s)"
    and l: "json_loads L s = Some (PDict data)"
    by (cases "map_of item ''description''")
      (auto simp: activity_log_keep_def loads_any_def dict_get_def Let_def
        split: option.splits pyval.splits if_splits)
  have un: "fst (unwrap_payload item) = Inr item"
    using assms(2) by (simp add: unwrap_payload_def)
  have ld: "fst (load_description L (dict_get item ''__auto_id__'' PNone)
               (dict_get item ''description'' (PStr ''{}''))) = Inr (PDict data)"
    by (simp add: dict_get_Some [OF d] load_description_def l)
  show ?thesis
    by (simp add: decode_activity_log_parsed(1) [OF un ld])
qed

text \<open>
  The part of claim C3 the code meets, for \<^verbatim>\<open>BugRepository.get_all\<close>: when no item
  is wrapped in a payload and no description holds JSON other than an object, the
  listing succeeds and returns one bug for each item the filter accepts; an item
  whose description is not JSON is among those skipped.
\<close>

lemma bug_get_all_skips:
  assumes "\<And>item. item \<in> set items \<Longrightarrow> map_of item ''payload'' = None"
    and "\<And>item s v. item \<in> set items \<Longrightarrow> map_of item ''description'' = Some (PStr s) \<Longrightarrow>
           json_loads L s = Some v \<Longrightarrow> \<exists>data. v = PDict data"
  shows "\<exists>bugs. bug_get_all L clock items p st a = Inr bugs
           \<and> length bugs = length (filter (\<lambda>item. bug_keep L p st a item = Inr True) items)"
proof -
  have "\<exists>xs. filter_items (bug_keep L p st a) items
               = Inr (filter (\<lambda>item. bug_keep L p st a item = Inr True) items)
           \<and> decode_items (\<lambda>now item. fst (collection_item_to_bug L now item)) clock 0
               (filter (\<lambda>item. bug_keep L p st a item = Inr True) items) = Inr xs
           \<and> length xs = length (filter (\<lambda>item. bug_keep L p st a item = Inr True) items)"
  proof (rule filter_then_decode)
    fix item assume "item \<in> set items"
    then show "\<exists>k. bug_keep L p st a item = Inr k"
      using assms(2) by (intro bug_keep_returns) blast
  next
    fix now item assume "item \<in> set items" "bug_keep L p st a item = Inr True"
    then show "\<exists>x. fst (collection_item_to_bug L now item) = Inr x"
      using assms(1) by (intro bug_keep_decodes)
  qed
  then show ?thesis by (auto simp: bug_get_all_def)
qed

text \<open>
  Claim C3 at the sample store, which holds the sample items and the item whose
  description is the JSON text \<^verbatim>\<open>5\<close>: every list operation fails with
  \<open>AttributeError\<close>, although without that item each succeeds. At an item whose
  description is a dictionary the Comment and ActivityLog operations fail with
  \<open>TypeError\<close>, while the Bug operation, which tests \<^verbatim>\<open>isinstance(description, str)\<close>,
  skips it.
\<close>

theorem list_number_description:
  "sample_store = sample_items @ [number_item]
   \<and> bug_get_all sample_lib (\<lambda>k. 0) sample_store None None None = Inl AttributeError
   \<and> comment_get_by_bug_id sample_lib (\<lambda>k. 0) sample_store ''b1'' = Inl AttributeError
   \<and> activity_log_get_by_bug_id sample_lib (\<lambda>k. 0) sample_store ''b1'' = Inl AttributeError
   \<and> activity_log_get_all sample_lib (\<lambda>k. 0) sample_store = Inl AttributeError
   \<and> comment_get_by_bug_id sample_lib (\<lambda>k. 0) (sample_items @ [object_item]) ''b1'' = Inl TypeError
   \<and> activity_log_get_all sample_lib (\<lambda>k. 0) (sample_items @ [object_item]) = Inl TypeError
   \<and> bug_get_all sample_lib (\<lambda>k. 0) (sample_items @ [object_item]) None None None
       = Inr [sample_bug\<lparr> b_id := PStr ''b1'' \<rparr>]"
proof -
  have number: "bug_keep sample_lib None None None number_item = Inl AttributeError"
    "comment_keep sample_lib ''b1'' number_item = Inl AttributeError"
    "activity_log_keep sample_lib (Some ''b1'') number_item = Inl AttributeError"
    "activity_log_keep sample_lib None number_item = Inl AttributeError"
    by (simp_all add: bug_keep_def comment_keep_def activity_log_keep_def loads_any_def
        dict_get_def number_item_def sample_loads)
  have object: "bug_keep sample_lib None None None object_item = Inr False"
    "comment_keep sample_lib ''b1'' object_item = Inl TypeError"
    "activity_log_keep sample_lib None object_item = Inl TypeError"
    by (simp_all add: bug_keep_def comment_keep_def activity_log_keep_def loads_any_def
        dict_get_def object_item_def)
  show ?thesis
    using keep_sample_bug keep_sample_comment keep_sample_log
    by (simp add: sample_store_def sample_items_def bug_get_all_def comment_get_by_bug_id_def
        activity_log_get_by_bug_id_def activity_log_get_all_def activity_log_list_def
        number object decode_stored_bug)
qed

section \<open>Updates: rejected and missing targets\<close>

text \<open>
  Claim C7. \<^verbatim>\<open>update_fields\<close> with an empty update set fails with
  \<open>InvalidArgument\<close> (\<^verbatim>\<open>ValueError("updates cannot be empty")\<close>) for every id, every
  store and every clock, and the list of store-client calls it made is empty: the
  store is not contacted.
\<close>

theorem update_fields_empty_rejected:
  "bug_update_fields L S clock bug_id [] = (Inl InvalidArgument, [])"
  by (simp add: bug_update_fields_def)

lemma read_modify_write_absent:
  "get_item_by_id S collection bug_id = Inr None \<Longrightarrow>
   read_modify_write L S clock bug_id change =
     (Inl (NotFound bug_id), [GetItemById collection bug_id])"
  by (simp add: read_modify_write_def bug_get_by_id_def)

text \<open>
  Claim C5, as amended. When the store holds no item under the id, \<^verbatim>\<open>update_status\<close>,
  \<^verbatim>\<open>update_assignment\<close>, \<^verbatim>\<open>update_validation\<close>, and \<^verbatim>\<open>update_fields\<close> with a
  non-empty update set fail with \<open>NotFound\<close>, and the only call they made is the
  read \<^verbatim>\<open>get_item_by_id\<close>: \<^verbatim>\<open>update_item\<close> is never called.
\<close>

theorem update_absent_not_found:
  "get_item_by_id S collection bug_id = Inr None \<Longrightarrow>
   bug_update_status L S clock bug_id status updated_at =
     (Inl (NotFound bug_id), [GetItemById collection bug_id])
   \<and> bug_update_assignment L S clock bug_id assigned_to updated_at =
     (Inl (NotFound bug_id), [GetItemById collection bug_id])
   \<and> bug_update_validation L S clock bug_id validated updated_at =
     (Inl (NotFound bug_id), [GetItemById collection bug_id])
   \<and> (updates \<noteq> [] \<longrightarrow>
        bug_update_fields L S clock bug_id updates =
          (Inl (NotFound bug_id), [GetItemById collection bug_id]))"
  by (simp add: bug_update_status_def bug_update_assignment_def bug_update_validation_def
      bug_update_fields_def read_modify_write_absent)

text \<open>
  The sample store holds nothing under \<^verbatim>\<open>b9\<close>: the four operations fail there with
  \<open>NotFound\<close> after the one read.
\<close>

theorem update_absent_not_found_witness:
  "get_item_by_id sample_service collection ''b9'' = Inr None
   \<and> bug_update_status sample_lib sample_service (\<lambda>k. 0) ''b9'' ''Closed'' t_2024_01_03 =
     (Inl (NotFound ''b9''), [GetItemById collection ''b9''])
   \<and> bug_update_assignment sample_lib sample_service (\<lambda>k. 0) ''b9'' ''u2'' t_2024_01_03 =
     (Inl (NotFound ''b9''), [GetItemById collection ''b9''])
   \<and> bug_update_validation sample_lib sample_service (\<lambda>k. 0) ''b9'' True t_2024_01_03 =
     (Inl (NotFound ''b9''), [GetItemById collection ''b9''])
   \<and> bug_update_fields sample_lib sample_service (\<lambda>k. 0) ''b9'' [(''status'', PStr ''Closed'')] =
     (Inl (NotFound ''b9''), [GetItemById collection ''b9''])"
proof -
  have absent: "get_item_by_id sample_service collection ''b9'' = Inr None"
    by (simp add: sample_service_def sample_lookup_eval)
  show ?thesis
    using absent
      update_absent_not_found [OF absent, of sample_lib "\<lambda>k. 0" "''Closed''" t_2024_01_03
        "''u2''" True "[(''status'', PStr ''Closed'')]"]
    by simp
qed

text \<open>
  Claim C5 as stated fails for \<^verbatim>\<open>update_fields\<close>: with an empty update set the guard
  comes first, and the error on the missing id \<^verbatim>\<open>b9\<close> is \<open>InvalidArgument\<close>.
\<close>

theorem update_fields_absent_counterexample:
  "get_item_by_id sample_service collection ''b9'' = Inr None
   \<and> fst (bug_update_fields sample_lib sample_service (\<lambda>k. 0) ''b9'' []) \<noteq> Inl (NotFound ''b9'')"
  by (simp add: bug_update_fields_def sample_service_def sample_lookup_eval)


section \<open>Updates: what is sent to the store\<close>











lemma same_but_refl: "same_but keys d d"
  by (simp add: same_but_def)











end
